theory Spec2Isabelle
  imports Main
begin

section \<open>Values, dictionaries and exceptions\<close>

text \<open>
  The handlers of \<^verbatim>\<open>mcp-server/main.py\<close> and the data-access class of
  \<^verbatim>\<open>mcp-server/services/supabase_service.py\<close> build and return Python values that
  are serialised as JSON. A float is kept as the dyadic number it denotes; no handler
  computes with floats except \<^verbatim>\<open>sum\<close> in the revenue statistics, where the
  addition of floats is a parameter.
\<close>

text \<open>\<open>Finite m e\<close> is the float \<open>m \<times> 2\<^sup>e\<close>; \<open>Infinity\<close> carries its sign.\<close>

datatype pyfloat = Finite int int | Infinity bool | NaN

datatype json =
    JNull
  | JBool bool
  | JInt int
  | JFloat pyfloat
  | JStr string
  | JList "json list"
  | JDict "(string \<times> json) list"

type_synonym dict = "(string \<times> json) list"

text \<open>An exception is its class name and \<^verbatim>\<open>str(e)\<close>.\<close>

datatype exn = Exn string string

fun str_exn :: "exn \<Rightarrow> string" where
  "str_exn (Exn c m) = m"

text \<open>\<^verbatim>\<open>str(KeyError(k))\<close> is the repr of the key: the key between single quotes,
  for the keys of letters and underscores that the code uses.\<close>

definition KeyError :: "string \<Rightarrow> exn" where
  "KeyError k = Exn ''KeyError'' ([CHR 0x27] @ k @ [CHR 0x27])"

definition TypeError :: "string \<Rightarrow> exn" where
  "TypeError m = Exn ''TypeError'' m"

text \<open>\<^verbatim>\<open>d[k] = v\<close>: a present key keeps its place, a new key goes last.\<close>

fun setitem :: "dict \<Rightarrow> string \<Rightarrow> json \<Rightarrow> dict" where
  "setitem [] k v = [(k, v)]"
| "setitem ((k', v') # d) k v = (if k' = k then (k, v) # d else (k', v') # setitem d k v)"

text \<open>A dict display \<^verbatim>\<open>{k1: v1, **d, k2: v2}\<close> inserts its items from left to
  right into an empty dict; \<^verbatim>\<open>**d\<close> inserts the items of \<^verbatim>\<open>d\<close> in order.\<close>

fun dict_display :: "dict \<Rightarrow> dict \<Rightarrow> dict" where
  "dict_display acc [] = acc"
| "dict_display acc ((k, v) # items) = dict_display (setitem acc k v) items"

text \<open>\<^verbatim>\<open>e[k]\<close> on a value: KeyError on a dict without the key, TypeError on a value
  that is no dict.\<close>

fun getitem :: "json \<Rightarrow> string \<Rightarrow> exn + json" where
  "getitem (JDict d) k = (case map_of d k of None \<Rightarrow> Inl (KeyError k) | Some v \<Rightarrow> Inr v)"
| "getitem _ k = Inl (TypeError ''object is not subscriptable'')"

text \<open>Truth value of a JSON value, as \<^verbatim>\<open>if v\<close> tests it.\<close>

fun truthy :: "json \<Rightarrow> bool" where
  "truthy JNull = False"
| "truthy (JBool b) = b"
| "truthy (JInt n) = (n \<noteq> 0)"
| "truthy (JFloat (Finite m e)) = (m \<noteq> 0)"
| "truthy (JFloat _) = True"
| "truthy (JStr s) = (s \<noteq> [])"
| "truthy (JList xs) = (xs \<noteq> [])"
| "truthy (JDict d) = (d \<noteq> [])"

text \<open>\<^verbatim>\<open>xs[:n]\<close>: a negative bound counts from the end.\<close>

definition slice_to :: "'a list \<Rightarrow> int \<Rightarrow> 'a list" where
  "slice_to xs n = (if 0 \<le> n then take (nat n) xs else take (length xs - nat (- n)) xs)"

text \<open>\<^verbatim>\<open>[e for e in events if e[k] == v]\<close>; the first failing lookup ends the
  comprehension with its exception.\<close>

fun select_eq :: "json list \<Rightarrow> string \<Rightarrow> json \<Rightarrow> exn + json list" where
  "select_eq [] k v = Inr []"
| "select_eq (e # es) k v =
     (case getitem e k of
        Inl x \<Rightarrow> Inl x
      | Inr w \<Rightarrow>
          (case select_eq es k v of
             Inl x \<Rightarrow> Inl x
           | Inr r \<Rightarrow> Inr (if w = v then e # r else r)))"

text \<open>\<^verbatim>\<open>if flt: events = [e for e in events if e[k] == flt]\<close> for an
  \<^verbatim>\<open>Optional[str]\<close> filter: \<^verbatim>\<open>None\<close> and the empty string are false and
  leave the list as it is.\<close>

fun filter_if :: "string option \<Rightarrow> string \<Rightarrow> json list \<Rightarrow> exn + json list" where
  "filter_if None k events = Inr events"
| "filter_if (Some flt) k events = (if flt \<noteq> [] then select_eq events k (JStr flt) else Inr events)"

section \<open>Clock, log and state\<close>

text \<open>
  \<^verbatim>\<open>datetime.now()\<close> reads the wall clock. A reading is kept as the three strings
  the code derives from it: \<^verbatim>\<open>str(now.timestamp())\<close> as the f-strings of the
  identifiers render it, \<^verbatim>\<open>now.isoformat()\<close> and
  \<^verbatim>\<open>now.strftime("%Y-%m-%d")\<close>.
\<close>

record datetime =
  timestamp :: string
  isoformat :: string
  strftime_Ymd :: string

text \<open>An f-string is kept as its parts: literal text and interpolated values.\<close>

datatype fpart = Lit string | Val json

datatype level = INFO | WARNING | ERROR

text \<open>The state a handler can change: the clock (the readings still to come, each
  \<^verbatim>\<open>datetime.now()\<close> takes the next) and the log.\<close>

record state =
  clock :: "nat \<Rightarrow> datetime"
  log :: "(level \<times> fpart list) list"

definition now :: "state \<Rightarrow> datetime \<times> state" where
  "now s = (clock s 0, s\<lparr>clock := \<lambda>n. clock s (Suc n)\<rparr>)"

definition logger_info :: "fpart list \<Rightarrow> state \<Rightarrow> state" where
  "logger_info msg s = s\<lparr>log := log s @ [(INFO, msg)]\<rparr>"

definition logger_error :: "fpart list \<Rightarrow> state \<Rightarrow> state" where
  "logger_error msg s = s\<lparr>log := log s @ [(ERROR, msg)]\<rparr>"

section \<open>The endpoint layer (main.py)\<close>

record HTTPException =
  status_code :: nat
  detail :: string
  headers :: "(string \<times> string) list"

record HTTPAuthorizationCredentials =
  scheme :: string
  credentials :: string

text \<open>\<^verbatim>\<open>os.getenv("MCP_API_TOKEN", "car-audio-events-mcp-token")\<close>; the
  environment is a map from names to values.\<close>

definition expected_token :: "(string \<rightharpoonup> string) \<Rightarrow> string" where
  "expected_token environ =
     (case environ ''MCP_API_TOKEN'' of None \<Rightarrow> ''car-audio-events-mcp-token'' | Some t \<Rightarrow> t)"

definition verify_token ::
  "(string \<rightharpoonup> string) \<Rightarrow> HTTPAuthorizationCredentials \<Rightarrow> HTTPException + bool" where
  "verify_token environ creds =
     (let token = credentials creds;
          expected = expected_token environ
      in if token \<noteq> expected
         then Inl \<lparr>status_code = 401,
                   detail = ''Invalid authentication credentials'',
                   headers = [(''WWW-Authenticate'', ''Bearer'')]\<rparr>
         else Inr True)"

text \<open>The \<^verbatim>\<open>try: ... except Exception as e\<close> around every handler body: the
  exception is logged and raised again as \<^verbatim>\<open>HTTPException(500, str(e))\<close>.\<close>

definition except_500 ::
  "string \<Rightarrow> (exn + json) \<times> state \<Rightarrow> (HTTPException + json) \<times> state" where
  "except_500 what r =
     (case r of
        (Inr v, s) \<Rightarrow> (Inr v, s)
      | (Inl e, s) \<Rightarrow>
          (Inl \<lparr>status_code = 500, detail = str_exn e, headers = []\<rparr>,
           logger_error [Lit what, Val (JStr (str_exn e))] s))"

subsection \<open>Status endpoints\<close>

definition root :: "state \<Rightarrow> (HTTPException + json) \<times> state" where
  "root s =
     (let (t, s1) = now s
      in (Inr (JDict
            [(''message'', JStr ''Car Audio Events MCP Server''),
             (''status'', JStr ''operational''),
             (''timestamp'', JStr (isoformat t)),
             (''endpoints'', JDict
                [(''events'', JStr ''/api/events''),
                 (''registrations'', JStr ''/api/registrations''),
                 (''analytics'', JStr ''/api/analytics''),
                 (''payments'', JStr ''/api/payments''),
                 (''support'', JStr ''/api/support'')])]), s1))"

definition health_check :: "state \<Rightarrow> (HTTPException + json) \<times> state" where
  "health_check s =
     (let (t, s1) = now s
      in (Inr (JDict
            [(''status'', JStr ''healthy''),
             (''timestamp'', JStr (isoformat t)),
             (''service'', JStr ''Car Audio Events MCP Server'')]), s1))"

subsection \<open>Listing events\<close>

definition sample_events :: "json list" where
  "sample_events =
     [JDict [(''id'', JStr ''evt_001''),
             (''name'', JStr ''Summer Bass Championship 2025''),
             (''type'', JStr ''SPL''),
             (''start_date'', JStr ''2025-06-15''),
             (''location'', JStr ''Miami, FL''),
             (''status'', JStr ''published''),
             (''registrations'', JInt 45)],
      JDict [(''id'', JStr ''evt_002''),
             (''name'', JStr ''SQ Masters Series''),
             (''type'', JStr ''SQ''),
             (''start_date'', JStr ''2025-07-20''),
             (''location'', JStr ''Atlanta, GA''),
             (''status'', JStr ''published''),
             (''registrations'', JInt 32)]]"

text \<open>The body of \<^verbatim>\<open>list_events\<close> inside its \<^verbatim>\<open>try\<close>.\<close>

definition list_events_body :: "string option \<Rightarrow> string option \<Rightarrow> int \<Rightarrow> exn + json" where
  "list_events_body status event_type limit =
     (let events = sample_events
      in case filter_if status ''status'' events of
           Inl x \<Rightarrow> Inl x
         | Inr events1 \<Rightarrow>
             (case filter_if event_type ''type'' events1 of
                Inl x \<Rightarrow> Inl x
              | Inr events2 \<Rightarrow>
                  Inr (JDict
                    [(''success'', JBool True),
                     (''count'', JInt (int (length events2))),
                     (''events'', JList (slice_to events2 limit))])))"

definition list_events ::
  "string option \<Rightarrow> string option \<Rightarrow> int \<Rightarrow> state \<Rightarrow> (HTTPException + json) \<times> state" where
  "list_events status event_type limit s =
     except_500 ''Error listing events: '' (list_events_body status event_type limit, s)"

subsection \<open>Request models\<close>

record EventCreate =
  ev_name :: string
  ev_event_type :: string
  ev_start_date :: string
  ev_end_date :: string
  ev_location :: string
  ev_venue_name :: string
  ev_max_competitors :: int
  ev_early_bird_price :: pyfloat
  ev_regular_price :: pyfloat
  ev_description :: "string option"

record CompetitorRegistration =
  reg_event_id :: string
  reg_competitor_name :: string
  reg_email :: string
  reg_phone :: string
  reg_vehicle_info :: dict
  reg_class_id :: string
  reg_team_name :: "string option"

record EventAnalytics =
  an_event_id :: "string option"
  an_start_date :: "string option"
  an_end_date :: "string option"
  an_metrics :: "string list"

record PaymentProcess =
  pay_registration_id :: string
  pay_amount :: pyfloat
  pay_currency :: string
  pay_payment_method :: string
  pay_metadata :: "dict option"

record SupportTicket =
  tk_subject :: string
  tk_description :: string
  tk_priority :: string
  tk_category :: string
  tk_user_email :: string
  tk_attachments :: "string list option"

subsection \<open>Creating records\<close>

definition create_event_body :: "EventCreate \<Rightarrow> state \<Rightarrow> (exn + json) \<times> state" where
  "create_event_body event s =
     (let s1 = logger_info [Lit ''Creating event: '', Val (JStr (ev_name event))] s;
          (t1, s2) = now s1;
          (t2, s3) = now s2;
          created_event = JDict
            [(''id'', JStr (''evt_'' @ timestamp t1)),
             (''name'', JStr (ev_name event)),
             (''type'', JStr (ev_event_type event)),
             (''start_date'', JStr (ev_start_date event)),
             (''end_date'', JStr (ev_end_date event)),
             (''location'', JStr (ev_location event)),
             (''venue'', JStr (ev_venue_name event)),
             (''status'', JStr ''draft''),
             (''created_at'', JStr (isoformat t2))]
      in (Inr (JDict
            [(''success'', JBool True),
             (''message'', JStr (''Event '' @ [CHR 0x27] @ ev_name event @ [CHR 0x27]
                                  @ '' created successfully'')),
             (''event'', created_event)]), s3))"

definition create_event :: "EventCreate \<Rightarrow> state \<Rightarrow> (HTTPException + json) \<times> state" where
  "create_event event s = except_500 ''Error creating event: '' (create_event_body event s)"

definition register_competitor_body ::
  "CompetitorRegistration \<Rightarrow> state \<Rightarrow> (exn + json) \<times> state" where
  "register_competitor_body registration s =
     (let s1 = logger_info [Lit ''Registering '', Val (JStr (reg_competitor_name registration)),
                            Lit '' for event '', Val (JStr (reg_event_id registration))] s;
          (t1, s2) = now s1;
          (t2, s3) = now s2;
          created_registration = JDict
            [(''id'', JStr (''reg_'' @ timestamp t1)),
             (''event_id'', JStr (reg_event_id registration)),
             (''competitor'', JStr (reg_competitor_name registration)),
             (''email'', JStr (reg_email registration)),
             (''class'', JStr (reg_class_id registration)),
             (''status'', JStr ''pending_payment''),
             (''created_at'', JStr (isoformat t2))]
      in (Inr (JDict
            [(''success'', JBool True),
             (''message'', JStr ''Registration created successfully''),
             (''registration'', created_registration)]), s3))"

definition register_competitor ::
  "CompetitorRegistration \<Rightarrow> state \<Rightarrow> (HTTPException + json) \<times> state" where
  "register_competitor registration s =
     except_500 ''Error creating registration: '' (register_competitor_body registration s)"

definition process_payment_body :: "PaymentProcess \<Rightarrow> state \<Rightarrow> (exn + json) \<times> state" where
  "process_payment_body payment s =
     (let s1 = logger_info [Lit ''Processing payment of '', Val (JFloat (pay_amount payment)),
                            Lit '' '', Val (JStr (pay_currency payment)),
                            Lit '' via '', Val (JStr (pay_payment_method payment))] s;
          (t1, s2) = now s1;
          (t2, s3) = now s2;
          payment_result = JDict
            [(''id'', JStr (''pay_'' @ timestamp t1)),
             (''registration_id'', JStr (pay_registration_id payment)),
             (''amount'', JFloat (pay_amount payment)),
             (''currency'', JStr (pay_currency payment)),
             (''status'', JStr ''succeeded''),
             (''payment_method'', JStr (pay_payment_method payment)),
             (''processed_at'', JStr (isoformat t2))]
      in (Inr (JDict
            [(''success'', JBool True),
             (''message'', JStr ''Payment processed successfully''),
             (''payment'', payment_result)]), s3))"

definition process_payment :: "PaymentProcess \<Rightarrow> state \<Rightarrow> (HTTPException + json) \<times> state" where
  "process_payment payment s =
     except_500 ''Error processing payment: '' (process_payment_body payment s)"

definition create_support_ticket_body ::
  "SupportTicket \<Rightarrow> state \<Rightarrow> (exn + json) \<times> state" where
  "create_support_ticket_body ticket s =
     (let s1 = logger_info [Lit ''Creating support ticket: '', Val (JStr (tk_subject ticket))] s;
          (t1, s2) = now s1;
          (t2, s3) = now s2;
          created_ticket = JDict
            [(''id'', JStr (''tkt_'' @ timestamp t1)),
             (''subject'', JStr (tk_subject ticket)),
             (''description'', JStr (tk_description ticket)),
             (''priority'', JStr (tk_priority ticket)),
             (''category'', JStr (tk_category ticket)),
             (''status'', JStr ''open''),
             (''created_by'', JStr (tk_user_email ticket)),
             (''created_at'', JStr (isoformat t2))]
      in (Inr (JDict
            [(''success'', JBool True),
             (''message'', JStr ''Support ticket created successfully''),
             (''ticket'', created_ticket)]), s3))"

definition create_support_ticket ::
  "SupportTicket \<Rightarrow> state \<Rightarrow> (HTTPException + json) \<times> state" where
  "create_support_ticket ticket s =
     except_500 ''Error creating support ticket: '' (create_support_ticket_body ticket s)"

subsection \<open>Analytics\<close>

text \<open>\<^verbatim>\<open>request.start_date or "2025-01-01"\<close>: the default stands in for
  \<^verbatim>\<open>None\<close> and for the empty string.\<close>

fun str_or :: "string option \<Rightarrow> string \<Rightarrow> string" where
  "str_or None d = d"
| "str_or (Some v) d = (if v \<noteq> [] then v else d)"

text \<open>\<^verbatim>\<open>request.end_date or datetime.now().strftime("%Y-%m-%d")\<close>: the clock is
  read only when the left operand is false.\<close>

fun end_or_today :: "string option \<Rightarrow> state \<Rightarrow> string \<times> state" where
  "end_or_today None s = (let (t, s1) = now s in (strftime_Ymd t, s1))"
| "end_or_today (Some v) s =
     (if v \<noteq> [] then (v, s) else (let (t, s1) = now s in (strftime_Ymd t, s1)))"

definition get_analytics_body :: "EventAnalytics \<Rightarrow> state \<Rightarrow> (exn + json) \<times> state" where
  "get_analytics_body request s =
     (let s1 = logger_info [Lit ''Fetching analytics for metrics: '',
                            Val (JList (map JStr (an_metrics request)))] s;
          start = str_or (an_start_date request) ''2025-01-01'';
          (end_date, s2) = end_or_today (an_end_date request) s1;
          period = JDict [(''start'', JStr start), (''end'', JStr end_date)];
          metrics0 = [];
          metrics1 =
            (if ''registrations'' \<in> set (an_metrics request)
             then setitem metrics0 ''registrations'' (JDict
                    [(''total'', JInt 156),
                     (''growth'', JStr ''+12%''),
                     (''by_class'', JDict
                        [(''SPL'', JInt 89), (''SQ'', JInt 45), (''Show'', JInt 22)])])
             else metrics0);
          metrics2 =
            (if ''revenue'' \<in> set (an_metrics request)
             then setitem metrics1 ''revenue'' (JDict
                    [(''total'', JFloat (Finite 15600 0)),
                     (''average_per_event'', JFloat (Finite 3120 0)),
                     (''by_payment_method'', JDict
                        [(''stripe'', JFloat (Finite 12000 0)),
                         (''paypal'', JFloat (Finite 3600 0))])])
             else metrics1);
          metrics3 =
            (if ''attendance'' \<in> set (an_metrics request)
             then setitem metrics2 ''attendance'' (JDict
                    [(''total_attendees'', JInt 450),
                     (''average_per_event'', JInt 90),
                     (''retention_rate'', JStr ''78%'')])
             else metrics2);
          analytics_data = JDict [(''period'', period), (''metrics'', JDict metrics3)]
      in (Inr (JDict [(''success'', JBool True), (''analytics'', analytics_data)]), s2))"

definition get_analytics :: "EventAnalytics \<Rightarrow> state \<Rightarrow> (HTTPException + json) \<times> state" where
  "get_analytics request s =
     except_500 ''Error fetching analytics: '' (get_analytics_body request s)"

subsection \<open>Routes\<close>

text \<open>
  A request that has passed FastAPI's validation, by route. The routes declared with
  \<^verbatim>\<open>Depends(verify_token)\<close> first run the security scheme on the
  \<^verbatim>\<open>Authorization\<close> header, then \<^verbatim>\<open>verify_token\<close> on the credentials the
  scheme extracted; an \<^verbatim>\<open>HTTPException\<close> from either is the response and the handler
  is not called. The scheme is \<^verbatim>\<open>security = HTTPBearer()\<close>, a class of the FastAPI
  library: it is a parameter here.
\<close>

datatype request =
    GET_root
  | GET_health
  | POST_events EventCreate
  | GET_events "string option" "string option" int
  | POST_registrations CompetitorRegistration
  | POST_analytics EventAnalytics
  | POST_payments PaymentProcess
  | POST_support SupportTicket

type_synonym security = "string option \<Rightarrow> HTTPException + HTTPAuthorizationCredentials"

definition Depends_verify_token ::
  "security \<Rightarrow> (string \<rightharpoonup> string) \<Rightarrow> string option \<Rightarrow> HTTPException + bool" where
  "Depends_verify_token security environ authorization =
     (case security authorization of
        Inl e \<Rightarrow> Inl e
      | Inr creds \<Rightarrow> verify_token environ creds)"

fun authenticated_route :: "request \<Rightarrow> bool" where
  "authenticated_route GET_root = False"
| "authenticated_route GET_health = False"
| "authenticated_route (GET_events status event_type limit) = False"
| "authenticated_route _ = True"

fun handler :: "request \<Rightarrow> state \<Rightarrow> (HTTPException + json) \<times> state" where
  "handler GET_root s = root s"
| "handler GET_health s = health_check s"
| "handler (POST_events event) s = create_event event s"
| "handler (GET_events status event_type limit) s = list_events status event_type limit s"
| "handler (POST_registrations registration) s = register_competitor registration s"
| "handler (POST_analytics request) s = get_analytics request s"
| "handler (POST_payments payment) s = process_payment payment s"
| "handler (POST_support ticket) s = create_support_ticket ticket s"

definition app ::
  "security \<Rightarrow> (string \<rightharpoonup> string) \<Rightarrow> string option \<Rightarrow> request \<Rightarrow> state
     \<Rightarrow> (HTTPException + json) \<times> state" where
  "app security environ authorization req s =
     (if authenticated_route req
      then (case Depends_verify_token security environ authorization of
              Inl e \<Rightarrow> (Inl e, s)
            | Inr ok \<Rightarrow> handler req s)
      else handler req s)"

subsection \<open>The security scheme of the library\<close>




section \<open>The data-access shim (services/supabase_service.py)\<close>

text \<open>
  The methods of \<^verbatim>\<open>SupabaseService\<close> take the client (\<^verbatim>\<open>self.client\<close>, which
  is \<^verbatim>\<open>None\<close> in mock mode) as their first argument. The private methods lose their
  leading underscore (\<^verbatim>\<open>_mock_event_response\<close> is \<open>mock_event_response\<close>), and
  the two methods that share a name with a handler of main.py carry the class name.
\<close>

subsection \<open>The remote client\<close>

text \<open>
  The Supabase client is an external library. A query is what the builder calls
  (\<^verbatim>\<open>table\<close>, \<^verbatim>\<open>select\<close> or \<^verbatim>\<open>insert\<close>, \<^verbatim>\<open>eq\<close>, \<^verbatim>\<open>gte\<close>,
  \<^verbatim>\<open>lte\<close>, \<^verbatim>\<open>limit\<close>) have collected; the client is what
  \<^verbatim>\<open>execute()\<close> does with a query: it raises or returns a response. A response
  has \<^verbatim>\<open>data\<close> and may have a \<^verbatim>\<open>count\<close> attribute.
\<close>

datatype filter = Eq string json | Gte string json | Lte string json

datatype action = Select string bool | Insert dict

record query =
  q_table :: string
  q_action :: action
  q_filters :: "filter list"
  q_limit :: "int option"

record APIResponse =
  data :: json
  count_attr :: "json option"

type_synonym client = "query \<Rightarrow> exn + APIResponse"

text \<open>\<^verbatim>\<open>if v: query = query.op(column, v)\<close> for an optional string.\<close>

fun filter_opt :: "string option \<Rightarrow> (json \<Rightarrow> filter) \<Rightarrow> query \<Rightarrow> query" where
  "filter_opt None f q = q"
| "filter_opt (Some v) f q = (if v \<noteq> [] then q\<lparr>q_filters := q_filters q @ [f (JStr v)]\<rparr> else q)"

text \<open>\<^verbatim>\<open>x[0]\<close> on a value that \<^verbatim>\<open>if x\<close> has found true. The keys of a dict
  are strings, so \<^verbatim>\<open>0\<close> is never one of them.\<close>

fun getitem0 :: "json \<Rightarrow> exn + json" where
  "getitem0 (JList (x # xs)) = Inr x"
| "getitem0 (JList []) = Inl (Exn ''IndexError'' ''list index out of range'')"
| "getitem0 (JStr (c # cs)) = Inr (JStr [c])"
| "getitem0 (JStr []) = Inl (Exn ''IndexError'' ''string index out of range'')"
| "getitem0 (JDict d) = Inl (Exn ''KeyError'' ''0'')"
| "getitem0 _ = Inl (TypeError ''object is not subscriptable'')"

text \<open>\<^verbatim>\<open>response.data[0] if response.data else None\<close>\<close>

definition first_or_None :: "json \<Rightarrow> exn + json" where
  "first_or_None d = (if truthy d then getitem0 d else Inr JNull)"

fun py_len :: "json \<Rightarrow> exn + int" where
  "py_len (JList xs) = Inr (int (length xs))"
| "py_len (JStr cs) = Inr (int (length cs))"
| "py_len (JDict d) = Inr (int (length d))"
| "py_len _ = Inl (TypeError ''object has no len()'')"

text \<open>Iterating a value: the items of a list, the keys of a dict, the characters of a
  string.\<close>

fun py_iter :: "json \<Rightarrow> exn + json list" where
  "py_iter (JList xs) = Inr xs"
| "py_iter (JDict d) = Inr (map (\<lambda>kv. JStr (fst kv)) d)"
| "py_iter (JStr cs) = Inr (map (\<lambda>c. JStr [c]) cs)"
| "py_iter _ = Inl (TypeError ''object is not iterable'')"

text \<open>Float arithmetic is not modelled: the addition of two floats and the conversion of
  an int to a float (which raises OverflowError on an int that is too large) are
  parameters.\<close>

record float_ops =
  float_add :: "pyfloat \<Rightarrow> pyfloat \<Rightarrow> pyfloat"
  float_of_int :: "int \<Rightarrow> exn + pyfloat"

fun as_int :: "json \<Rightarrow> int option" where
  "as_int (JInt n) = Some n"
| "as_int (JBool b) = Some (if b then 1 else 0)"
| "as_int _ = None"

text \<open>\<^verbatim>\<open>a + b\<close> on numbers (a bool is an int); TypeError on anything else that the
  running total of \<^verbatim>\<open>sum\<close>, a number, can meet.\<close>

definition py_add :: "float_ops \<Rightarrow> json \<Rightarrow> json \<Rightarrow> exn + json" where
  "py_add fo a b =
     (case (as_int a, as_int b) of
        (Some m, Some n) \<Rightarrow> Inr (JInt (m + n))
      | (Some m, None) \<Rightarrow>
          (case b of
             JFloat y \<Rightarrow>
               (case float_of_int fo m of
                  Inl e \<Rightarrow> Inl e
                | Inr x \<Rightarrow> Inr (JFloat (float_add fo x y)))
           | _ \<Rightarrow> Inl (TypeError ''unsupported operand type(s) for +''))
      | (None, Some n) \<Rightarrow>
          (case a of
             JFloat x \<Rightarrow>
               (case float_of_int fo n of
                  Inl e \<Rightarrow> Inl e
                | Inr y \<Rightarrow> Inr (JFloat (float_add fo x y)))
           | _ \<Rightarrow> Inl (TypeError ''unsupported operand type(s) for +''))
      | (None, None) \<Rightarrow>
          (case (a, b) of
             (JFloat x, JFloat y) \<Rightarrow> Inr (JFloat (float_add fo x y))
           | _ \<Rightarrow> Inl (TypeError ''unsupported operand type(s) for +'')))"

text \<open>\<^verbatim>\<open>sum(p['amount'] for p in ps)\<close> with the running total \<^verbatim>\<open>acc\<close>, from
  \<^verbatim>\<open>0\<close>: each item is looked up, then added, in turn.\<close>

fun sum_amounts :: "float_ops \<Rightarrow> json \<Rightarrow> json list \<Rightarrow> exn + json" where
  "sum_amounts fo acc [] = Inr acc"
| "sum_amounts fo acc (p # ps) =
     (case getitem p ''amount'' of
        Inl e \<Rightarrow> Inl e
      | Inr a \<Rightarrow>
          (case py_add fo acc a of
             Inl e \<Rightarrow> Inl e
           | Inr acc' \<Rightarrow> sum_amounts fo acc' ps))"

subsection \<open>Construction\<close>

text \<open>\<^verbatim>\<open>__init__\<close>: without both credentials the client is \<^verbatim>\<open>None\<close> (mock
  mode); \<^verbatim>\<open>create_client\<close> is the library's constructor. \<^verbatim>\<open>not v\<close> holds for
  an unset variable and for an empty one.\<close>

fun unset :: "string option \<Rightarrow> bool" where
  "unset None = True"
| "unset (Some v) = (v = [])"

definition SupabaseService_init ::
  "(string \<rightharpoonup> string) \<Rightarrow> (string \<Rightarrow> string \<Rightarrow> client) \<Rightarrow> state \<Rightarrow> client option \<times> state" where
  "SupabaseService_init environ create_client s =
     (let supabase_url = environ ''VITE_SUPABASE_URL'';
          supabase_key = environ ''SUPABASE_SERVICE_ROLE_KEY''
      in if unset supabase_url \<or> unset supabase_key
         then (None,
               s\<lparr>log := log s @
                  [(WARNING, [Lit ''Supabase credentials not found. Running in mock mode.''])]\<rparr>)
         else (case (supabase_url, supabase_key) of
                 (Some url, Some key) \<Rightarrow>
                   (Some (create_client url key),
                    logger_info [Lit ''Supabase client initialized successfully''] s)
               | _ \<Rightarrow> (None, s)))"

subsection \<open>Mock responses\<close>

definition mock_event_response :: "dict \<Rightarrow> state \<Rightarrow> json \<times> state" where
  "mock_event_response event_data s =
     (let (t1, s1) = now s;
          (t2, s2) = now s1;
          (t3, s3) = now s2
      in (JDict (dict_display []
            ([(''id'', JStr (''evt_mock_'' @ timestamp t1))]
             @ event_data
             @ [(''created_at'', JStr (isoformat t2)),
                (''updated_at'', JStr (isoformat t3))])), s3))"

definition mock_events_list :: "json" where
  "mock_events_list = JList
     [JDict [(''id'', JStr ''evt_001''),
             (''name'', JStr ''Mock Bass Championship''),
             (''event_type'', JStr ''SPL''),
             (''start_date'', JStr ''2025-06-15''),
             (''location'', JStr ''Miami, FL''),
             (''status'', JStr ''published'')],
      JDict [(''id'', JStr ''evt_002''),
             (''name'', JStr ''Mock SQ Masters''),
             (''event_type'', JStr ''SQ''),
             (''start_date'', JStr ''2025-07-20''),
             (''location'', JStr ''Atlanta, GA''),
             (''status'', JStr ''published'')]]"

definition mock_event_by_id :: "string \<Rightarrow> json" where
  "mock_event_by_id event_id = JDict
     [(''id'', JStr event_id),
      (''name'', JStr ''Mock Event''),
      (''event_type'', JStr ''SPL''),
      (''start_date'', JStr ''2025-06-15''),
      (''location'', JStr ''Mock City, ST''),
      (''status'', JStr ''published'')]"

definition mock_registration_response :: "dict \<Rightarrow> state \<Rightarrow> json \<times> state" where
  "mock_registration_response registration_data s =
     (let (t1, s1) = now s;
          (t2, s2) = now s1
      in (JDict (dict_display []
            ([(''id'', JStr (''reg_mock_'' @ timestamp t1))]
             @ registration_data
             @ [(''status'', JStr ''pending_payment''),
                (''created_at'', JStr (isoformat t2))])), s2))"

definition mock_registrations_list :: "json" where
  "mock_registrations_list = JList
     [JDict [(''id'', JStr ''reg_001''),
             (''event_id'', JStr ''evt_001''),
             (''competitor_name'', JStr ''John Doe''),
             (''status'', JStr ''confirmed'')]]"

definition mock_analytics_data :: "json" where
  "mock_analytics_data = JDict
     [(''registrations'', JDict [(''total'', JInt 156), (''data'', JList [])]),
      (''revenue'', JDict [(''total'', JFloat (Finite 15600 0)),
                           (''transaction_count'', JInt 156),
                           (''data'', JList [])]),
      (''attendance'', JDict [(''total_checked_in'', JInt 145), (''data'', JList [])])]"

definition mock_payment_response :: "dict \<Rightarrow> state \<Rightarrow> json \<times> state" where
  "mock_payment_response payment_data s =
     (let (t1, s1) = now s;
          (t2, s2) = now s1
      in (JDict (dict_display []
            ([(''id'', JStr (''pay_mock_'' @ timestamp t1))]
             @ payment_data
             @ [(''status'', JStr ''succeeded''),
                (''processed_at'', JStr (isoformat t2))])), s2))"

definition mock_ticket_response :: "dict \<Rightarrow> state \<Rightarrow> json \<times> state" where
  "mock_ticket_response ticket_data s =
     (let (t1, s1) = now s;
          (t2, s2) = now s1
      in (JDict (dict_display []
            ([(''id'', JStr (''tkt_mock_'' @ timestamp t1))]
             @ ticket_data
             @ [(''status'', JStr ''open''),
                (''created_at'', JStr (isoformat t2))])), s2))"

subsection \<open>Operations\<close>

text \<open>\<^verbatim>\<open>except Exception as e: logger.error(f"...{str(e)}"); raise\<close>\<close>

definition log_and_raise :: "fpart list \<Rightarrow> exn + json \<Rightarrow> state \<Rightarrow> (exn + json) \<times> state" where
  "log_and_raise what r s =
     (case r of
        Inr v \<Rightarrow> (Inr v, s)
      | Inl e \<Rightarrow> (Inl e, logger_error (what @ [Val (JStr (str_exn e))]) s))"

text \<open>\<^verbatim>\<open>client.table(t).insert(d).execute()\<close>, then
  \<^verbatim>\<open>response.data[0] if response.data else None\<close>.\<close>

definition insert_first :: "client \<Rightarrow> string \<Rightarrow> dict \<Rightarrow> exn + json" where
  "insert_first c t d =
     (case c \<lparr>q_table = t, q_action = Insert d, q_filters = [], q_limit = None\<rparr> of
        Inl e \<Rightarrow> Inl e
      | Inr response \<Rightarrow> first_or_None (data response))"

definition SupabaseService_create_event ::
  "client option \<Rightarrow> dict \<Rightarrow> state \<Rightarrow> (exn + json) \<times> state" where
  "SupabaseService_create_event client event_data s =
     (case client of
        None \<Rightarrow> (let (r, s1) = mock_event_response event_data s in (Inr r, s1))
      | Some c \<Rightarrow>
          log_and_raise [Lit ''Error creating event: ''] (insert_first c ''events'' event_data) s)"

definition get_events ::
  "client option \<Rightarrow> string option \<Rightarrow> string option \<Rightarrow> int \<Rightarrow> state \<Rightarrow> (exn + json) \<times> state" where
  "get_events client status event_type limit s =
     (case client of
        None \<Rightarrow> (Inr mock_events_list, s)
      | Some c \<Rightarrow>
          (let query0 = \<lparr>q_table = ''events'', q_action = Select ''*'' False,
                          q_filters = [], q_limit = None\<rparr>;
               query1 = filter_opt status (Eq ''status'') query0;
               query2 = filter_opt event_type (Eq ''event_type'') query1;
               query3 = query2\<lparr>q_limit := Some limit\<rparr>
           in log_and_raise [Lit ''Error fetching events: '']
                (case c query3 of Inl e \<Rightarrow> Inl e | Inr response \<Rightarrow> Inr (data response)) s))"

definition get_event_by_id ::
  "client option \<Rightarrow> string \<Rightarrow> state \<Rightarrow> (exn + json) \<times> state" where
  "get_event_by_id client event_id s =
     (case client of
        None \<Rightarrow> (Inr (mock_event_by_id event_id), s)
      | Some c \<Rightarrow>
          log_and_raise [Lit ''Error fetching event '', Val (JStr event_id), Lit '': '']
            (case c \<lparr>q_table = ''events'', q_action = Select ''*'' False,
                      q_filters = [Eq ''id'' (JStr event_id)], q_limit = None\<rparr> of
               Inl e \<Rightarrow> Inl e
             | Inr response \<Rightarrow> first_or_None (data response)) s)"

definition create_registration ::
  "client option \<Rightarrow> dict \<Rightarrow> state \<Rightarrow> (exn + json) \<times> state" where
  "create_registration client registration_data s =
     (case client of
        None \<Rightarrow> (let (r, s1) = mock_registration_response registration_data s in (Inr r, s1))
      | Some c \<Rightarrow>
          log_and_raise [Lit ''Error creating registration: '']
            (insert_first c ''registrations'' registration_data) s)"

definition get_registrations ::
  "client option \<Rightarrow> string option \<Rightarrow> string option \<Rightarrow> string option \<Rightarrow> state
     \<Rightarrow> (exn + json) \<times> state" where
  "get_registrations client event_id user_id status s =
     (case client of
        None \<Rightarrow> (Inr mock_registrations_list, s)
      | Some c \<Rightarrow>
          (let query0 = \<lparr>q_table = ''registrations'', q_action = Select ''*'' False,
                          q_filters = [], q_limit = None\<rparr>;
               query1 = filter_opt event_id (Eq ''event_id'') query0;
               query2 = filter_opt user_id (Eq ''user_id'') query1;
               query3 = filter_opt status (Eq ''status'') query2
           in log_and_raise [Lit ''Error fetching registrations: '']
                (case c query3 of Inl e \<Rightarrow> Inl e | Inr response \<Rightarrow> Inr (data response)) s))"

definition create_payment_record ::
  "client option \<Rightarrow> dict \<Rightarrow> state \<Rightarrow> (exn + json) \<times> state" where
  "create_payment_record client payment_data s =
     (case client of
        None \<Rightarrow> (let (r, s1) = mock_payment_response payment_data s in (Inr r, s1))
      | Some c \<Rightarrow>
          log_and_raise [Lit ''Error creating payment record: '']
            (insert_first c ''payments'' payment_data) s)"

definition SupabaseService_create_support_ticket ::
  "client option \<Rightarrow> dict \<Rightarrow> state \<Rightarrow> (exn + json) \<times> state" where
  "SupabaseService_create_support_ticket client ticket_data s =
     (case client of
        None \<Rightarrow> (let (r, s1) = mock_ticket_response ticket_data s in (Inr r, s1))
      | Some c \<Rightarrow>
          log_and_raise [Lit ''Error creating support ticket: '']
            (insert_first c ''support_tickets'' ticket_data) s)"

subsection \<open>Analytics\<close>

text \<open>The three statistics functions have the same shape: build the query, execute it,
  shape the result; any exception in there is logged and replaced by the default literal
  of the \<^verbatim>\<open>except\<close> branch. The part inside \<^verbatim>\<open>try\<close> is the \<open>_try\<close>
  function.\<close>

definition registration_query :: "string option \<Rightarrow> string option \<Rightarrow> string option \<Rightarrow> query" where
  "registration_query event_id start_date end_date =
     (let query0 = \<lparr>q_table = ''registrations'', q_action = Select ''*'' True,
                     q_filters = [], q_limit = None\<rparr>;
          query1 = filter_opt event_id (Eq ''event_id'') query0;
          query2 = filter_opt start_date (Gte ''created_at'') query1
      in filter_opt end_date (Lte ''created_at'') query2)"

text \<open>\<^verbatim>\<open>response.count if hasattr(response, 'count') else len(response.data)\<close>\<close>

definition count_or_len :: "APIResponse \<Rightarrow> exn + json" where
  "count_or_len response =
     (case count_attr response of
        Some c \<Rightarrow> Inr c
      | None \<Rightarrow> (case py_len (data response) of Inl e \<Rightarrow> Inl e | Inr n \<Rightarrow> Inr (JInt n)))"

definition get_registration_stats_try ::
  "client \<Rightarrow> string option \<Rightarrow> string option \<Rightarrow> string option \<Rightarrow> exn + json" where
  "get_registration_stats_try c event_id start_date end_date =
     (case c (registration_query event_id start_date end_date) of
        Inl e \<Rightarrow> Inl e
      | Inr response \<Rightarrow>
          (case count_or_len response of
             Inl e \<Rightarrow> Inl e
           | Inr n \<Rightarrow> Inr (JDict [(''total'', n), (''data'', data response)])))"

definition get_registration_stats ::
  "client \<Rightarrow> string option \<Rightarrow> string option \<Rightarrow> string option \<Rightarrow> state \<Rightarrow> json \<times> state" where
  "get_registration_stats c event_id start_date end_date s =
     (case get_registration_stats_try c event_id start_date end_date of
        Inr v \<Rightarrow> (v, s)
      | Inl e \<Rightarrow>
          (JDict [(''total'', JInt 0), (''data'', JList [])],
           logger_error [Lit ''Error getting registration stats: '', Val (JStr (str_exn e))] s))"

definition revenue_query :: "string option \<Rightarrow> string option \<Rightarrow> string option \<Rightarrow> query" where
  "revenue_query event_id start_date end_date =
     (let query0 = \<lparr>q_table = ''payments'',
                     q_action = Select ''amount, status, payment_method'' False,
                     q_filters = [], q_limit = None\<rparr>;
          query1 = filter_opt event_id (Eq ''registration.event_id'') query0;
          query2 = filter_opt start_date (Gte ''created_at'') query1;
          query3 = filter_opt end_date (Lte ''created_at'') query2
      in query3\<lparr>q_filters := q_filters query3 @ [Eq ''status'' (JStr ''succeeded'')]\<rparr>)"

definition get_revenue_stats_try ::
  "float_ops \<Rightarrow> client \<Rightarrow> string option \<Rightarrow> string option \<Rightarrow> string option \<Rightarrow> exn + json" where
  "get_revenue_stats_try fo c event_id start_date end_date =
     (case c (revenue_query event_id start_date end_date) of
        Inl e \<Rightarrow> Inl e
      | Inr response \<Rightarrow>
          (case (if truthy (data response)
                 then (case py_iter (data response) of
                         Inl e \<Rightarrow> Inl e
                       | Inr ps \<Rightarrow> sum_amounts fo (JInt 0) ps)
                 else Inr (JInt 0)) of
             Inl e \<Rightarrow> Inl e
           | Inr total_revenue \<Rightarrow>
               (case (if truthy (data response)
                      then (case py_len (data response) of
                              Inl e \<Rightarrow> Inl e
                            | Inr n \<Rightarrow> Inr (JInt n))
                      else Inr (JInt 0)) of
                  Inl e \<Rightarrow> Inl e
                | Inr transaction_count \<Rightarrow>
                    Inr (JDict [(''total'', total_revenue),
                                (''transaction_count'', transaction_count),
                                (''data'', data response)]))))"

definition get_revenue_stats ::
  "float_ops \<Rightarrow> client \<Rightarrow> string option \<Rightarrow> string option \<Rightarrow> string option \<Rightarrow> state
     \<Rightarrow> json \<times> state" where
  "get_revenue_stats fo c event_id start_date end_date s =
     (case get_revenue_stats_try fo c event_id start_date end_date of
        Inr v \<Rightarrow> (v, s)
      | Inl e \<Rightarrow>
          (JDict [(''total'', JInt 0), (''transaction_count'', JInt 0), (''data'', JList [])],
           logger_error [Lit ''Error getting revenue stats: '', Val (JStr (str_exn e))] s))"

definition attendance_query :: "string option \<Rightarrow> string option \<Rightarrow> string option \<Rightarrow> query" where
  "attendance_query event_id start_date end_date =
     (let query0 = \<lparr>q_table = ''event_check_ins'', q_action = Select ''*'' True,
                     q_filters = [], q_limit = None\<rparr>;
          query1 = filter_opt event_id (Eq ''event_id'') query0;
          query2 = filter_opt start_date (Gte ''checked_in_at'') query1
      in filter_opt end_date (Lte ''checked_in_at'') query2)"

definition get_attendance_stats_try ::
  "client \<Rightarrow> string option \<Rightarrow> string option \<Rightarrow> string option \<Rightarrow> exn + json" where
  "get_attendance_stats_try c event_id start_date end_date =
     (case c (attendance_query event_id start_date end_date) of
        Inl e \<Rightarrow> Inl e
      | Inr response \<Rightarrow>
          (case count_or_len response of
             Inl e \<Rightarrow> Inl e
           | Inr n \<Rightarrow> Inr (JDict [(''total_checked_in'', n), (''data'', data response)])))"

definition get_attendance_stats ::
  "client \<Rightarrow> string option \<Rightarrow> string option \<Rightarrow> string option \<Rightarrow> state \<Rightarrow> json \<times> state" where
  "get_attendance_stats c event_id start_date end_date s =
     (case get_attendance_stats_try c event_id start_date end_date of
        Inr v \<Rightarrow> (v, s)
      | Inl e \<Rightarrow>
          (JDict [(''total_checked_in'', JInt 0), (''data'', JList [])],
           logger_error [Lit ''Error getting attendance stats: '', Val (JStr (str_exn e))] s))"

text \<open>The three statistics run one after the other. None of them raises, so the
  \<^verbatim>\<open>except\<close> branch of \<^verbatim>\<open>get_event_analytics\<close> has nothing to catch.\<close>

definition get_event_analytics ::
  "float_ops \<Rightarrow> client option \<Rightarrow> string option \<Rightarrow> string option \<Rightarrow> string option \<Rightarrow> state
     \<Rightarrow> (exn + json) \<times> state" where
  "get_event_analytics fo client event_id start_date end_date s =
     (case client of
        None \<Rightarrow> (Inr mock_analytics_data, s)
      | Some c \<Rightarrow>
          (let (registrations, s1) = get_registration_stats c event_id start_date end_date s;
               (revenue, s2) = get_revenue_stats fo c event_id start_date end_date s1;
               (attendance, s3) = get_attendance_stats c event_id start_date end_date s2
           in (Inr (JDict [(''registrations'', registrations),
                           (''revenue'', revenue),
                           (''attendance'', attendance)]), s3)))"

section \<open>Concrete inputs\<close>

text \<open>A clock that gives the listed readings in order and then stays at the last one.\<close>

definition readings :: "datetime list \<Rightarrow> datetime \<Rightarrow> nat \<Rightarrow> datetime" where
  "readings rs r n = (if n < length rs then rs ! n else r)"

definition reading :: "string \<Rightarrow> string \<Rightarrow> datetime" where
  "reading ts text = \<lparr>timestamp = ts, isoformat = text, strftime_Ymd = take 10 text\<rparr>"

definition state0 :: state where
  "state0 =
     \<lparr>clock = readings
        [reading ''1750000000.000001'' ''2025-06-15T15:06:40.000001'',
         reading ''1750000000.000207'' ''2025-06-15T15:06:40.000207'',
         reading ''1750000000.000391'' ''2025-06-15T15:06:40.000391'',
         reading ''1750000000.000512'' ''2025-06-15T15:06:40.000512'',
         reading ''1750000000.000688'' ''2025-06-15T15:06:40.000688'',
         reading ''1750000000.000803'' ''2025-06-15T15:06:40.000803'']
        (reading ''1750000001.0'' ''2025-06-15T15:06:41''),
      log = []\<rparr>"


definition event0 :: EventCreate where
  "event0 =
     \<lparr>ev_name = ''Summer Bass Championship 2025'',
      ev_event_type = ''SPL'',
      ev_start_date = ''2025-06-15'',
      ev_end_date = ''2025-06-16'',
      ev_location = ''Miami, FL'',
      ev_venue_name = ''Bayfront Park'',
      ev_max_competitors = 100,
      ev_early_bird_price = Finite 25 0,
      ev_regular_price = Finite 35 0,
      ev_description = None\<rparr>"

text \<open>A path of keys into nested dicts.\<close>

fun lookup_path :: "json \<Rightarrow> string list \<Rightarrow> json option" where
  "lookup_path v [] = Some v"
| "lookup_path (JDict d) (k # ks) =
     (case map_of d k of None \<Rightarrow> None | Some w \<Rightarrow> lookup_path w ks)"
| "lookup_path _ (k # ks) = None"

text \<open>The value at a path in the body of a result; nothing when the result is an
  exception.\<close>

definition body_path :: "('e + json) \<times> 's \<Rightarrow> string list \<Rightarrow> json option" where
  "body_path r p = (case fst r of Inl e \<Rightarrow> None | Inr b \<Rightarrow> lookup_path b p)"

text \<open>What it means for an event to pass an optional filter, in the words of the
  specification: no filter, or the field equal to the filter's value.\<close>

fun matches :: "string option \<Rightarrow> string \<Rightarrow> json \<Rightarrow> bool" where
  "matches None k e = True"
| "matches (Some v) k e = (v = [] \<or> getitem e k = Inr (JStr v))"

definition registration0 :: CompetitorRegistration where
  "registration0 =
     \<lparr>reg_event_id = ''evt_001'',
      reg_competitor_name = ''John Doe'',
      reg_email = ''john@example.com'',
      reg_phone = ''555-0100'',
      reg_vehicle_info = [(''make'', JStr ''Honda''), (''year'', JInt 1998)],
      reg_class_id = ''spl_street'',
      reg_team_name = None\<rparr>"

definition payment0 :: PaymentProcess where
  "payment0 =
     \<lparr>pay_registration_id = ''reg_001'',
      pay_amount = Finite 35 0,
      pay_currency = ''USD'',
      pay_payment_method = ''stripe'',
      pay_metadata = None\<rparr>"

definition ticket0 :: SupportTicket where
  "ticket0 =
     \<lparr>tk_subject = ''Cannot register'',
      tk_description = ''The form does not submit'',
      tk_priority = ''medium'',
      tk_category = ''registration'',
      tk_user_email = ''john@example.com'',
      tk_attachments = None\<rparr>"

definition analytics0 :: EventAnalytics where
  "analytics0 =
     \<lparr>an_event_id = None, an_start_date = None, an_end_date = None,
      an_metrics = [''attendance'']\<rparr>"

definition event_data0 :: dict where
  "event_data0 = [(''name'', JStr ''Summer Bass Championship 2025''), (''max_competitors'', JInt 100)]"

text \<open>A store whose \<^verbatim>\<open>payments\<close> table cannot be reached and whose other tables
  answer with two rows.\<close>

definition client0 :: client where
  "client0 q =
     (if q_table q = ''payments'' then Inl (Exn ''ConnectError'' ''connection refused'')
      else Inr \<lparr>data = JList [JDict [(''id'', JInt 1)], JDict [(''id'', JInt 2)]],
                count_attr = Some (JInt 2)\<rparr>)"

text \<open>A store none of whose tables can be reached.\<close>

definition client1 :: client where
  "client1 q =
     (if q_table q = ''payments'' then Inl (Exn ''ConnectError'' ''connection refused'')
      else Inl (Exn ''ConnectError'' ''timed out''))"

text \<open>Exact float operations on small integers, enough for the inputs above.\<close>

definition float_ops0 :: float_ops where
  "float_ops0 =
     \<lparr>float_add =
        (\<lambda>x y. case x of
                  Finite m d \<Rightarrow>
                    (case y of
                       Finite n e \<Rightarrow> if d = 0 \<and> e = 0 then Finite (m + n) 0 else NaN
                     | _ \<Rightarrow> NaN)
                | _ \<Rightarrow> NaN),
      float_of_int = (\<lambda>n. Inr (Finite n 0))\<rparr>"

text \<open>The events that pass both filters of \<^verbatim>\<open>list_events\<close>, before the limit.\<close>

definition remaining_events :: "string option \<Rightarrow> string option \<Rightarrow> json list" where
  "remaining_events status event_type =
     filter (\<lambda>e. matches status ''status'' e \<and> matches event_type ''type'' e) sample_events"

section \<open>Auxiliary facts\<close>

lemma select_eq_filter:
  "\<forall>e \<in> set es. \<exists>w. getitem e k = Inr w \<Longrightarrow>
   select_eq es k v = Inr (filter (\<lambda>e. getitem e k = Inr v) es)"
  by (induction es) auto

lemma filter_if_matches:
  "\<forall>e \<in> set es. \<exists>w. getitem e k = Inr w \<Longrightarrow>
   filter_if flt k es = Inr (filter (matches flt k) es)"
  by (cases flt) (auto simp: select_eq_filter intro: filter_cong)

lemma sample_events_have_status:
  "e \<in> set sample_events \<Longrightarrow> \<exists>w. getitem e ''status'' = Inr w"
  by (auto simp: sample_events_def)

lemma sample_events_have_type:
  "e \<in> set sample_events \<Longrightarrow> \<exists>w. getitem e ''type'' = Inr w"
  by (auto simp: sample_events_def)

lemma list_events_body_eq:
  "list_events_body status event_type limit =
     Inr (JDict
       [(''success'', JBool True),
        (''count'', JInt (int (length (remaining_events status event_type)))),
        (''events'', JList (slice_to (remaining_events status event_type) limit))])"
proof -
  let ?by_status = "filter (matches status ''status'') sample_events"
  have first: "filter_if status ''status'' sample_events = Inr ?by_status"
    by (rule filter_if_matches) (simp add: sample_events_have_status)
  have second: "filter_if event_type ''type'' ?by_status
             = Inr (filter (matches event_type ''type'') ?by_status)"
    by (rule filter_if_matches) (simp add: sample_events_have_type)
  have "filter (matches event_type ''type'') ?by_status = remaining_events status event_type"
    by (simp add: remaining_events_def)
  with first second show ?thesis
    by (simp add: list_events_body_def)
qed

lemma length_slice_to:
  "int (length (slice_to xs n)) =
     (if 0 \<le> n then min n (int (length xs)) else max 0 (int (length xs) + n))"
  by (auto simp: slice_to_def)

lemma map_of_setitem: "map_of (setitem d k v) = (map_of d)(k \<mapsto> v)"
  by (induction d) (auto simp: fun_eq_iff)

lemma map_of_dict_display:
  "map_of (dict_display acc items) = map_of acc ++ map_of (rev items)"
proof (induction items arbitrary: acc)
  case Nil
  then show ?case by simp
next
  case (Cons kv items)
  obtain k v where kv: "kv = (k, v)" by (cases kv)
  show ?case
    by (simp add: kv Cons.IH map_of_setitem fun_eq_iff map_add_def split: option.splits)
qed

section \<open>Listing events\<close>

text \<open>
  C3. Listing with status filter "published", type filter "SPL" and limit 1 over the two
  sample events returns exactly one record, the first sample event, whose status is
  "published" and whose type is "SPL".
\<close>

theorem list_events_published_SPL_limit_1:
  "list_events (Some ''published'') (Some ''SPL'') 1 s =
     (Inr (JDict
        [(''success'', JBool True),
         (''count'', JInt 1),
         (''events'', JList [hd sample_events])]), s)
   \<and> getitem (hd sample_events) ''status'' = Inr (JStr ''published'')
   \<and> getitem (hd sample_events) ''type'' = Inr (JStr ''SPL'')"
  by (simp add: list_events_def list_events_body_def sample_events_def except_500_def
      slice_to_def)

text \<open>
  C9, as stated, fails where no event passes the filters and the limit is negative: the
  limit \<open>-1\<close> is smaller than the filtered total \<open>0\<close>, yet \<open>count\<close> is \<open>0\<close>
  and equals the length of the returned list.
\<close>

theorem list_events_count_not_above_counterexample:
  "list_events (Some ''draft'') None (- 1) state0 =
     (Inr (JDict
        [(''success'', JBool True),
         (''count'', JInt 0),
         (''events'', JList [])]), state0)
   \<and> (- 1 :: int) < 0
   \<and> \<not> int (length ([] :: json list)) < 0"
  by (simp add: list_events_def list_events_body_def sample_events_def except_500_def
      slice_to_def)

text \<open>
  C9, amended. In every list-events response \<open>count\<close> is the number of events that
  pass the status and type filters, before the limit, and \<open>events\<close> is that list cut
  by the limit. \<open>count\<close> strictly exceeds the length of \<open>events\<close> exactly when
  some event passes the filters and the limit is smaller than their number.
\<close>

theorem list_events_count_before_limit:
  "list_events status event_type limit s =
     (Inr (JDict
        [(''success'', JBool True),
         (''count'', JInt (int (length (remaining_events status event_type)))),
         (''events'', JList (slice_to (remaining_events status event_type) limit))]), s)
   \<and> (int (length (slice_to (remaining_events status event_type) limit))
          < int (length (remaining_events status event_type))
        \<longleftrightarrow> remaining_events status event_type \<noteq> []
            \<and> limit < int (length (remaining_events status event_type)))"
proof
  show "list_events status event_type limit s =
     (Inr (JDict
        [(''success'', JBool True),
         (''count'', JInt (int (length (remaining_events status event_type)))),
         (''events'', JList (slice_to (remaining_events status event_type) limit))]), s)"
    by (simp add: list_events_def list_events_body_eq except_500_def)
next
  show "int (length (slice_to (remaining_events status event_type) limit))
          < int (length (remaining_events status event_type))
        \<longleftrightarrow> remaining_events status event_type \<noteq> []
            \<and> limit < int (length (remaining_events status event_type))"
    unfolding length_slice_to by (cases "remaining_events status event_type") auto
qed

theorem list_events_count_before_limit_witness:
  "remaining_events None None \<noteq> []
   \<and> (1 :: int) < int (length (remaining_events None None))
   \<and> list_events None None 1 state0 =
       (Inr (JDict
          [(''success'', JBool True),
           (''count'', JInt 2),
           (''events'', JList [hd sample_events])]), state0)
   \<and> int (length (slice_to (remaining_events None None) 1))
        < int (length (remaining_events None None))"
  using list_events_count_before_limit [of None None 1 state0]
  by (simp add: remaining_events_def sample_events_def slice_to_def)

section \<open>Mock lookup by identifier\<close>

text \<open>
  C10. Without a client, \<^verbatim>\<open>get_event_by_id\<close> returns a record for every
  \<open>event_id\<close>, whatever it is: never the not-found result \<^verbatim>\<open>None\<close>, never an
  exception, and the record's \<open>id\<close> is the requested \<open>event_id\<close>.
\<close>

theorem get_event_by_id_mock_always_found:
  "get_event_by_id None event_id s = (Inr (mock_event_by_id event_id), s)
   \<and> mock_event_by_id event_id \<noteq> JNull
   \<and> getitem (mock_event_by_id event_id) ''id'' = Inr (JStr event_id)"
  by (simp add: get_event_by_id_def mock_event_by_id_def)

section \<open>Analytics by metric\<close>

text \<open>
  C7. For every analytics request whose metrics list is exactly \<open>["attendance"]\<close>,
  the response is a success envelope whose metrics mapping has the single key
  \<open>attendance\<close>: neither \<open>registrations\<close> nor \<open>revenue\<close> is a key of it.
\<close>

theorem get_analytics_attendance_only:
  "an_metrics request = [''attendance''] \<Longrightarrow>
   \<exists>period attendance s'.
     get_analytics request s =
       (Inr (JDict
          [(''success'', JBool True),
           (''analytics'', JDict
              [(''period'', period),
               (''metrics'', JDict [(''attendance'', attendance)])])]), s')
     \<and> map_of [(''attendance'', attendance)] ''registrations'' = None
     \<and> map_of [(''attendance'', attendance)] ''revenue'' = None"
  by (simp add: get_analytics_def get_analytics_body_def except_500_def Let_def
      split: prod.splits)

theorem get_analytics_attendance_only_witness:
  "an_metrics analytics0 = [''attendance'']
   \<and> body_path (get_analytics analytics0 state0) [''analytics'', ''metrics''] =
       Some (JDict [(''attendance'', JDict
          [(''total_attendees'', JInt 450),
           (''average_per_event'', JInt 90),
           (''retention_rate'', JStr ''78%'')])])"
proof -
  have h: "an_metrics analytics0 = [''attendance'']"
    by (simp add: analytics0_def)
  from get_analytics_attendance_only [OF h, of state0]
  obtain period attendance s' where
    "get_analytics analytics0 state0 =
       (Inr (JDict
          [(''success'', JBool True),
           (''analytics'', JDict
              [(''period'', period),
               (''metrics'', JDict [(''attendance'', attendance)])])]), s')"
    by blast
  moreover have "body_path (get_analytics analytics0 state0) [''analytics'', ''metrics''] =
       Some (JDict [(''attendance'', JDict
          [(''total_attendees'', JInt 450),
           (''average_per_event'', JInt 90),
           (''retention_rate'', JStr ''78%'')])])"
    by (simp add: body_path_def get_analytics_def get_analytics_body_def except_500_def
        analytics0_def Let_def split: prod.splits)
  ultimately show ?thesis using h by simp
qed

section \<open>Create operations\<close>

text \<open>What a lookup in the record of a mock create operation finds: the timestamps and
  the status written last win, then the caller's items, then the generated identifier.\<close>

lemma map_of_rev_distinct: "distinct (map fst d) \<Longrightarrow> map_of (rev d) = map_of d"
  by (simp add: distinct_map map_of_inject_set)

lemma create_event_mock_lookup:
  "body_path (SupabaseService_create_event None d s) [k] =
     (if k = ''updated_at'' then Some (JStr (isoformat (clock s 2)))
      else if k = ''created_at'' then Some (JStr (isoformat (clock s 1)))
      else (case map_of (rev d) k of
              Some v \<Rightarrow> Some v
            | None \<Rightarrow> if k = ''id'' then Some (JStr (''evt_mock_'' @ timestamp (clock s 0))) else None))"
  by (simp add: body_path_def SupabaseService_create_event_def mock_event_response_def now_def
      map_of_dict_display map_add_def numeral_2_eq_2 split: option.splits)

lemma create_registration_mock_lookup:
  "body_path (create_registration None d s) [k] =
     (if k = ''created_at'' then Some (JStr (isoformat (clock s 1)))
      else if k = ''status'' then Some (JStr ''pending_payment'')
      else (case map_of (rev d) k of
              Some v \<Rightarrow> Some v
            | None \<Rightarrow> if k = ''id'' then Some (JStr (''reg_mock_'' @ timestamp (clock s 0))) else None))"
  by (simp add: body_path_def create_registration_def mock_registration_response_def now_def
      map_of_dict_display map_add_def split: option.splits)

lemma create_payment_mock_lookup:
  "body_path (create_payment_record None d s) [k] =
     (if k = ''processed_at'' then Some (JStr (isoformat (clock s 1)))
      else if k = ''status'' then Some (JStr ''succeeded'')
      else (case map_of (rev d) k of
              Some v \<Rightarrow> Some v
            | None \<Rightarrow> if k = ''id'' then Some (JStr (''pay_mock_'' @ timestamp (clock s 0))) else None))"
  by (simp add: body_path_def create_payment_record_def mock_payment_response_def now_def
      map_of_dict_display map_add_def split: option.splits)

lemma create_ticket_mock_lookup:
  "body_path (SupabaseService_create_support_ticket None d s) [k] =
     (if k = ''created_at'' then Some (JStr (isoformat (clock s 1)))
      else if k = ''status'' then Some (JStr ''open'')
      else (case map_of (rev d) k of
              Some v \<Rightarrow> Some v
            | None \<Rightarrow> if k = ''id'' then Some (JStr (''tkt_mock_'' @ timestamp (clock s 0))) else None))"
  by (simp add: body_path_def SupabaseService_create_support_ticket_def mock_ticket_response_def now_def
      map_of_dict_display map_add_def split: option.splits)

lemma submitted_key_kept: "k \<in> fst ` set d \<Longrightarrow> map_of (rev d) k \<noteq> None"
  by (simp add: map_of_eq_None_iff)

lemma submitted_value_kept:
  "distinct (map fst d) \<Longrightarrow> (k, v) \<in> set d \<Longrightarrow> map_of (rev d) k = Some v"
  by (simp add: map_of_rev_distinct)

lemma not_submitted: "k \<notin> fst ` set d \<Longrightarrow> map_of (rev d) k = None"
  by (simp add: map_of_eq_None_iff)

lemma create_event_fields:
  "map (body_path (create_event event s))
     [[''success''], [''event'', ''id''], [''event'', ''created_at''],
      [''event'', ''name''], [''event'', ''type''], [''event'', ''start_date''],
      [''event'', ''end_date''], [''event'', ''location''], [''event'', ''venue'']]
   = map Some
     [JBool True, JStr (''evt_'' @ timestamp (clock s 0)), JStr (isoformat (clock s 1)),
      JStr (ev_name event), JStr (ev_event_type event), JStr (ev_start_date event),
      JStr (ev_end_date event), JStr (ev_location event), JStr (ev_venue_name event)]"
  by (simp add: body_path_def create_event_def create_event_body_def except_500_def now_def
      logger_info_def Let_def)

lemma register_competitor_fields:
  "map (body_path (register_competitor registration s))
     [[''success''], [''registration'', ''id''], [''registration'', ''created_at''],
      [''registration'', ''event_id''], [''registration'', ''competitor''],
      [''registration'', ''email''], [''registration'', ''class'']]
   = map Some
     [JBool True, JStr (''reg_'' @ timestamp (clock s 0)), JStr (isoformat (clock s 1)),
      JStr (reg_event_id registration), JStr (reg_competitor_name registration),
      JStr (reg_email registration), JStr (reg_class_id registration)]"
  by (simp add: body_path_def register_competitor_def register_competitor_body_def
      except_500_def now_def logger_info_def Let_def)

lemma process_payment_fields:
  "map (body_path (process_payment payment s))
     [[''success''], [''payment'', ''id''], [''payment'', ''processed_at''],
      [''payment'', ''registration_id''], [''payment'', ''amount''],
      [''payment'', ''currency''], [''payment'', ''payment_method'']]
   = map Some
     [JBool True, JStr (''pay_'' @ timestamp (clock s 0)), JStr (isoformat (clock s 1)),
      JStr (pay_registration_id payment), JFloat (pay_amount payment),
      JStr (pay_currency payment), JStr (pay_payment_method payment)]"
  by (simp add: body_path_def process_payment_def process_payment_body_def
      except_500_def now_def logger_info_def Let_def)

lemma create_support_ticket_fields:
  "map (body_path (create_support_ticket ticket s))
     [[''success''], [''ticket'', ''id''], [''ticket'', ''created_at''],
      [''ticket'', ''subject''], [''ticket'', ''description''], [''ticket'', ''priority''],
      [''ticket'', ''category''], [''ticket'', ''created_by'']]
   = map Some
     [JBool True, JStr (''tkt_'' @ timestamp (clock s 0)), JStr (isoformat (clock s 1)),
      JStr (tk_subject ticket), JStr (tk_description ticket), JStr (tk_priority ticket),
      JStr (tk_category ticket), JStr (tk_user_email ticket)]"
  by (simp add: body_path_def create_support_ticket_def create_support_ticket_body_def
      except_500_def now_def logger_info_def Let_def)

lemma mock_keys_kept:
  "\<forall>k \<in> fst ` set d.
       body_path (SupabaseService_create_event None d s) [k] \<noteq> None
     \<and> body_path (create_registration None d s) [k] \<noteq> None
     \<and> body_path (create_payment_record None d s) [k] \<noteq> None
     \<and> body_path (SupabaseService_create_support_ticket None d s) [k] \<noteq> None"
proof
  fix k assume "k \<in> fst ` set d"
  then obtain v where v: "map_of (rev d) k = Some v"
    using submitted_key_kept [of k d] by blast
  show "body_path (SupabaseService_create_event None d s) [k] \<noteq> None
     \<and> body_path (create_registration None d s) [k] \<noteq> None
     \<and> body_path (create_payment_record None d s) [k] \<noteq> None
     \<and> body_path (SupabaseService_create_support_ticket None d s) [k] \<noteq> None"
    unfolding create_event_mock_lookup create_registration_mock_lookup
        create_payment_mock_lookup create_ticket_mock_lookup v
    by simp
qed

lemma mock_values_kept:
  "\<forall>k v. distinct (map fst d) \<and> (k, v) \<in> set d \<longrightarrow>
       (k \<notin> {''created_at'', ''updated_at''} \<longrightarrow>
          body_path (SupabaseService_create_event None d s) [k] = Some v)
     \<and> (k \<notin> {''status'', ''created_at''} \<longrightarrow>
          body_path (create_registration None d s) [k] = Some v)
     \<and> (k \<notin> {''status'', ''processed_at''} \<longrightarrow>
          body_path (create_payment_record None d s) [k] = Some v)
     \<and> (k \<notin> {''status'', ''created_at''} \<longrightarrow>
          body_path (SupabaseService_create_support_ticket None d s) [k] = Some v)"
proof (intro allI impI)
  fix k v assume "distinct (map fst d) \<and> (k, v) \<in> set d"
  then have v: "map_of (rev d) k = Some v"
    by (simp add: submitted_value_kept)
  show "(k \<notin> {''created_at'', ''updated_at''} \<longrightarrow>
          body_path (SupabaseService_create_event None d s) [k] = Some v)
     \<and> (k \<notin> {''status'', ''created_at''} \<longrightarrow>
          body_path (create_registration None d s) [k] = Some v)
     \<and> (k \<notin> {''status'', ''processed_at''} \<longrightarrow>
          body_path (create_payment_record None d s) [k] = Some v)
     \<and> (k \<notin> {''status'', ''created_at''} \<longrightarrow>
          body_path (SupabaseService_create_support_ticket None d s) [k] = Some v)"
    unfolding create_event_mock_lookup create_registration_mock_lookup
        create_payment_mock_lookup create_ticket_mock_lookup v
    by simp
qed

lemma mock_timestamps:
  "body_path (SupabaseService_create_event None d s) [''created_at'']
     = Some (JStr (isoformat (clock s 1)))
   \<and> body_path (create_registration None d s) [''created_at'']
     = Some (JStr (isoformat (clock s 1)))
   \<and> body_path (create_payment_record None d s) [''processed_at'']
     = Some (JStr (isoformat (clock s 1)))
   \<and> body_path (SupabaseService_create_support_ticket None d s) [''created_at'']
     = Some (JStr (isoformat (clock s 1)))"
  by (simp add: create_event_mock_lookup create_registration_mock_lookup
      create_payment_mock_lookup create_ticket_mock_lookup)

lemma mock_ids:
  "''id'' \<notin> fst ` set d \<longrightarrow>
     body_path (SupabaseService_create_event None d s) [''id'']
       = Some (JStr (''evt_mock_'' @ timestamp (clock s 0)))
   \<and> body_path (create_registration None d s) [''id'']
       = Some (JStr (''reg_mock_'' @ timestamp (clock s 0)))
   \<and> body_path (create_payment_record None d s) [''id'']
       = Some (JStr (''pay_mock_'' @ timestamp (clock s 0)))
   \<and> body_path (SupabaseService_create_support_ticket None d s) [''id'']
       = Some (JStr (''tkt_mock_'' @ timestamp (clock s 0)))"
  by (simp add: create_event_mock_lookup create_registration_mock_lookup
      create_payment_mock_lookup create_ticket_mock_lookup not_submitted)

text \<open>
  C1, as stated, fails at the endpoint layer: the record that \<^verbatim>\<open>create_event\<close>
  synthesises has nine fixed keys, and the submitted \<open>max_competitors\<close> (like the two
  prices and the description) is not among them.
\<close>

theorem create_event_drops_fields_counterexample:
  "body_path (create_event event0 state0) [''success''] = Some (JBool True)
   \<and> body_path (create_event event0 state0) [''event''] = Some (JDict
        [(''id'', JStr ''evt_1750000000.000001''),
         (''name'', JStr ''Summer Bass Championship 2025''),
         (''type'', JStr ''SPL''),
         (''start_date'', JStr ''2025-06-15''),
         (''end_date'', JStr ''2025-06-16''),
         (''location'', JStr ''Miami, FL''),
         (''venue'', JStr ''Bayfront Park''),
         (''status'', JStr ''draft''),
         (''created_at'', JStr ''2025-06-15T15:06:40.000207'')])
   \<and> ev_max_competitors event0 = 100
   \<and> body_path (create_event event0 state0) [''event'', ''max_competitors''] = None"
  by (simp add: body_path_def create_event_def create_event_body_def except_500_def now_def
      logger_info_def Let_def event0_def state0_def readings_def reading_def)

text \<open>
  C1, amended. Every create endpoint returns a success envelope (\<open>success = true\<close>)
  with a synthesised record that has a generated identifier, a timestamp and the submitted
  fields that the handler copies: for an event the name, type, dates, location and venue;
  for a registration the event, competitor, email and class; for a payment the
  registration, amount, currency and method; for a ticket the subject, description,
  priority, category and email. Every mock create operation of the shim returns a record
  that has every submitted key, with the submitted value except under the keys the mock
  writes itself afterwards (the timestamps and, except for events, the status), a timestamp,
  and the generated identifier unless the caller submitted an \<open>id\<close>.
\<close>

theorem create_returns_success_and_record:
  "map (body_path (create_event event s))
     [[''success''], [''event'', ''id''], [''event'', ''created_at''],
      [''event'', ''name''], [''event'', ''type''], [''event'', ''start_date''],
      [''event'', ''end_date''], [''event'', ''location''], [''event'', ''venue'']]
   = map Some
     [JBool True, JStr (''evt_'' @ timestamp (clock s 0)), JStr (isoformat (clock s 1)),
      JStr (ev_name event), JStr (ev_event_type event), JStr (ev_start_date event),
      JStr (ev_end_date event), JStr (ev_location event), JStr (ev_venue_name event)]
 \<and> map (body_path (register_competitor registration s))
     [[''success''], [''registration'', ''id''], [''registration'', ''created_at''],
      [''registration'', ''event_id''], [''registration'', ''competitor''],
      [''registration'', ''email''], [''registration'', ''class'']]
   = map Some
     [JBool True, JStr (''reg_'' @ timestamp (clock s 0)), JStr (isoformat (clock s 1)),
      JStr (reg_event_id registration), JStr (reg_competitor_name registration),
      JStr (reg_email registration), JStr (reg_class_id registration)]
 \<and> map (body_path (process_payment payment s))
     [[''success''], [''payment'', ''id''], [''payment'', ''processed_at''],
      [''payment'', ''registration_id''], [''payment'', ''amount''],
      [''payment'', ''currency''], [''payment'', ''payment_method'']]
   = map Some
     [JBool True, JStr (''pay_'' @ timestamp (clock s 0)), JStr (isoformat (clock s 1)),
      JStr (pay_registration_id payment), JFloat (pay_amount payment),
      JStr (pay_currency payment), JStr (pay_payment_method payment)]
 \<and> map (body_path (create_support_ticket ticket s))
     [[''success''], [''ticket'', ''id''], [''ticket'', ''created_at''],
      [''ticket'', ''subject''], [''ticket'', ''description''], [''ticket'', ''priority''],
      [''ticket'', ''category''], [''ticket'', ''created_by'']]
   = map Some
     [JBool True, JStr (''tkt_'' @ timestamp (clock s 0)), JStr (isoformat (clock s 1)),
      JStr (tk_subject ticket), JStr (tk_description ticket), JStr (tk_priority ticket),
      JStr (tk_category ticket), JStr (tk_user_email ticket)]
 \<and> (\<forall>k \<in> fst ` set d.
       body_path (SupabaseService_create_event None d s) [k] \<noteq> None
     \<and> body_path (create_registration None d s) [k] \<noteq> None
     \<and> body_path (create_payment_record None d s) [k] \<noteq> None
     \<and> body_path (SupabaseService_create_support_ticket None d s) [k] \<noteq> None)
 \<and> (\<forall>k v. distinct (map fst d) \<and> (k, v) \<in> set d \<longrightarrow>
       (k \<notin> {''created_at'', ''updated_at''} \<longrightarrow>
          body_path (SupabaseService_create_event None d s) [k] = Some v)
     \<and> (k \<notin> {''status'', ''created_at''} \<longrightarrow>
          body_path (create_registration None d s) [k] = Some v)
     \<and> (k \<notin> {''status'', ''processed_at''} \<longrightarrow>
          body_path (create_payment_record None d s) [k] = Some v)
     \<and> (k \<notin> {''status'', ''created_at''} \<longrightarrow>
          body_path (SupabaseService_create_support_ticket None d s) [k] = Some v))
 \<and> (body_path (SupabaseService_create_event None d s) [''created_at'']
       = Some (JStr (isoformat (clock s 1)))
   \<and> body_path (create_registration None d s) [''created_at'']
       = Some (JStr (isoformat (clock s 1)))
   \<and> body_path (create_payment_record None d s) [''processed_at'']
       = Some (JStr (isoformat (clock s 1)))
   \<and> body_path (SupabaseService_create_support_ticket None d s) [''created_at'']
       = Some (JStr (isoformat (clock s 1))))
 \<and> (''id'' \<notin> fst ` set d \<longrightarrow>
     body_path (SupabaseService_create_event None d s) [''id'']
       = Some (JStr (''evt_mock_'' @ timestamp (clock s 0)))
   \<and> body_path (create_registration None d s) [''id'']
       = Some (JStr (''reg_mock_'' @ timestamp (clock s 0)))
   \<and> body_path (create_payment_record None d s) [''id'']
       = Some (JStr (''pay_mock_'' @ timestamp (clock s 0)))
   \<and> body_path (SupabaseService_create_support_ticket None d s) [''id'']
       = Some (JStr (''tkt_mock_'' @ timestamp (clock s 0))))"
  by (intro conjI create_event_fields register_competitor_fields process_payment_fields
      create_support_ticket_fields mock_keys_kept mock_values_kept mock_timestamps mock_ids)

theorem create_returns_success_and_record_witness:
  "''max_competitors'' \<in> fst ` set event_data0
   \<and> distinct (map fst event_data0)
   \<and> (''max_competitors'', JInt 100) \<in> set event_data0
   \<and> ''id'' \<notin> fst ` set event_data0
   \<and> body_path (SupabaseService_create_event None event_data0 state0) [''max_competitors'']
        = Some (JInt 100)
   \<and> body_path (SupabaseService_create_event None event_data0 state0) [''id'']
        = Some (JStr ''evt_mock_1750000000.000001'')"
proof -
  have keys: "distinct (map fst event_data0)
              \<and> (''max_competitors'', JInt 100) \<in> set event_data0"
    and no_id: "''id'' \<notin> fst ` set event_data0"
    and key: "''max_competitors'' \<in> fst ` set event_data0"
    by (simp_all add: event_data0_def)
  note all = create_returns_success_and_record
      [where d = event_data0 and s = state0 and event = event0
         and registration = registration0 and payment = payment0 and ticket = ticket0]
  from all have kept: "\<forall>k v. distinct (map fst event_data0) \<and> (k, v) \<in> set event_data0 \<longrightarrow>
       (k \<notin> {''created_at'', ''updated_at''} \<longrightarrow>
          body_path (SupabaseService_create_event None event_data0 state0) [k] = Some v)"
    by blast
  from all no_id have generated:
    "body_path (SupabaseService_create_event None event_data0 state0) [''id'']
        = Some (JStr (''evt_mock_'' @ timestamp (clock state0 0)))"
    by blast
  have "''max_competitors'' \<notin> {''created_at'', ''updated_at''}"
    by simp
  with kept keys
  have "body_path (SupabaseService_create_event None event_data0 state0) [''max_competitors'']
        = Some (JInt 100)"
    by blast
  moreover have "timestamp (clock state0 0) = ''1750000000.000001''"
    by (simp add: state0_def readings_def reading_def)
  ultimately show ?thesis
    using keys no_id key generated by simp
qed

section \<open>Generated identifiers\<close>




section \<open>Mock mode\<close>

lemma mock_reads:
  "get_events None status event_type limit s = (Inr mock_events_list, s)
   \<and> get_event_by_id None event_id s = (Inr (mock_event_by_id event_id), s)
   \<and> get_registrations None reg_event user_id reg_status s = (Inr mock_registrations_list, s)
   \<and> get_event_analytics fo None an_event start_date end_date s = (Inr mock_analytics_data, s)"
  by (simp add: get_events_def get_event_by_id_def get_registrations_def get_event_analytics_def)

lemma mock_create_event_same_clock:
  "clock s 0 = clock s' 0 \<and> clock s 1 = clock s' 1 \<and> clock s 2 = clock s' 2 \<longrightarrow>
     fst (SupabaseService_create_event None d s) = fst (SupabaseService_create_event None d s')"
  by (simp add: SupabaseService_create_event_def mock_event_response_def now_def numeral_2_eq_2)

lemma mock_create_others_same_clock:
  "clock s 0 = clock s' 0 \<and> clock s 1 = clock s' 1 \<longrightarrow>
     fst (create_registration None d s) = fst (create_registration None d s')
   \<and> fst (create_payment_record None d s) = fst (create_payment_record None d s')
   \<and> fst (SupabaseService_create_support_ticket None d s)
       = fst (SupabaseService_create_support_ticket None d s')"
  by (simp add: create_registration_def mock_registration_response_def
      create_payment_record_def mock_payment_response_def
      SupabaseService_create_support_ticket_def mock_ticket_response_def now_def)

lemma init_without_credentials:
  "unset (environ ''VITE_SUPABASE_URL'') \<or> unset (environ ''SUPABASE_SERVICE_ROLE_KEY'') \<longrightarrow>
     fst (SupabaseService_init environ create_client s) = None"
  by (simp add: SupabaseService_init_def)

lemma unreachable_store_raises:
  "fst (SupabaseService_create_event (Some (\<lambda>q. Inl e)) d s) = Inl e
   \<and> fst (get_events (Some (\<lambda>q. Inl e)) status event_type limit s) = Inl e
   \<and> fst (get_event_by_id (Some (\<lambda>q. Inl e)) event_id s) = Inl e
   \<and> fst (create_registration (Some (\<lambda>q. Inl e)) d s) = Inl e
   \<and> fst (get_registrations (Some (\<lambda>q. Inl e)) reg_event user_id reg_status s) = Inl e
   \<and> fst (create_payment_record (Some (\<lambda>q. Inl e)) d s) = Inl e
   \<and> fst (SupabaseService_create_support_ticket (Some (\<lambda>q. Inl e)) d s) = Inl e"
  by (simp add: SupabaseService_create_event_def get_events_def get_event_by_id_def
      create_registration_def get_registrations_def create_payment_record_def
      SupabaseService_create_support_ticket_def log_and_raise_def insert_first_def)

lemma unreachable_store_analytics:
  "fst (get_event_analytics fo (Some (\<lambda>q. Inl e)) an_event start_date end_date s) =
     Inr (JDict
       [(''registrations'', JDict [(''total'', JInt 0), (''data'', JList [])]),
        (''revenue'', JDict [(''total'', JInt 0), (''transaction_count'', JInt 0),
                             (''data'', JList [])]),
        (''attendance'', JDict [(''total_checked_in'', JInt 0), (''data'', JList [])])])"
  by (simp add: get_event_analytics_def get_registration_stats_def get_registration_stats_try_def
      get_revenue_stats_def get_revenue_stats_try_def get_attendance_stats_def
      get_attendance_stats_try_def)

text \<open>
  C5, as stated, fails for the create operations: the mock record holds an identifier and
  timestamps read from the clock, so the same operation invoked twice in a row with the
  same arguments returns two different records.
\<close>

theorem mock_create_event_twice_counterexample:
  "fst (SupabaseService_create_event None event_data0 state0)
   \<noteq> fst (SupabaseService_create_event None event_data0
            (snd (SupabaseService_create_event None event_data0 state0)))"
  by (simp add: SupabaseService_create_event_def mock_event_response_def now_def
      event_data0_def state0_def readings_def reading_def)

text \<open>
  C5, amended. Without credentials the shim has no client. Without a client, the read
  operations (\<^verbatim>\<open>get_events\<close>, \<^verbatim>\<open>get_event_by_id\<close>, \<^verbatim>\<open>get_registrations\<close>,
  \<^verbatim>\<open>get_event_analytics\<close>) return a fixed literal that depends on the arguments
  only and leave the state as it is, and the create operations return a record determined
  by the arguments and the clock readings of the call: two invocations with the same
  arguments that read the same clock values return equal records. With a client whose
  store is unreachable (every query raises) there is no fallback to the literals: every
  operation raises that exception, except the analytics aggregation, which returns its
  zero-valued defaults.
\<close>

theorem mock_mode_results:
  "(unset (environ ''VITE_SUPABASE_URL'') \<or> unset (environ ''SUPABASE_SERVICE_ROLE_KEY'') \<longrightarrow>
     fst (SupabaseService_init environ create_client s) = None)
 \<and> (get_events None status event_type limit s = (Inr mock_events_list, s)
   \<and> get_event_by_id None event_id s = (Inr (mock_event_by_id event_id), s)
   \<and> get_registrations None reg_event user_id reg_status s = (Inr mock_registrations_list, s)
   \<and> get_event_analytics fo None an_event start_date end_date s = (Inr mock_analytics_data, s))
 \<and> (clock s 0 = clock s' 0 \<and> clock s 1 = clock s' 1 \<and> clock s 2 = clock s' 2 \<longrightarrow>
     fst (SupabaseService_create_event None d s) = fst (SupabaseService_create_event None d s'))
 \<and> (clock s 0 = clock s' 0 \<and> clock s 1 = clock s' 1 \<longrightarrow>
     fst (create_registration None d s) = fst (create_registration None d s')
   \<and> fst (create_payment_record None d s) = fst (create_payment_record None d s')
   \<and> fst (SupabaseService_create_support_ticket None d s)
       = fst (SupabaseService_create_support_ticket None d s'))
 \<and> (fst (SupabaseService_create_event (Some (\<lambda>q. Inl e)) d s) = Inl e
   \<and> fst (get_events (Some (\<lambda>q. Inl e)) status event_type limit s) = Inl e
   \<and> fst (get_event_by_id (Some (\<lambda>q. Inl e)) event_id s) = Inl e
   \<and> fst (create_registration (Some (\<lambda>q. Inl e)) d s) = Inl e
   \<and> fst (get_registrations (Some (\<lambda>q. Inl e)) reg_event user_id reg_status s) = Inl e
   \<and> fst (create_payment_record (Some (\<lambda>q. Inl e)) d s) = Inl e
   \<and> fst (SupabaseService_create_support_ticket (Some (\<lambda>q. Inl e)) d s) = Inl e)
 \<and> fst (get_event_analytics fo (Some (\<lambda>q. Inl e)) an_event start_date end_date s) =
     Inr (JDict
       [(''registrations'', JDict [(''total'', JInt 0), (''data'', JList [])]),
        (''revenue'', JDict [(''total'', JInt 0), (''transaction_count'', JInt 0),
                             (''data'', JList [])]),
        (''attendance'', JDict [(''total_checked_in'', JInt 0), (''data'', JList [])])])"
  by (rule conjI [OF init_without_credentials conjI [OF mock_reads
        conjI [OF mock_create_event_same_clock conjI [OF mock_create_others_same_clock
        conjI [OF unreachable_store_raises unreachable_store_analytics]]]]])

theorem mock_mode_results_witness:
  "(unset (Map.empty ''VITE_SUPABASE_URL'') \<or> unset (Map.empty ''SUPABASE_SERVICE_ROLE_KEY''))
   \<and> fst (SupabaseService_init Map.empty (\<lambda>url key. client0) state0) = None
   \<and> clock state0 0 = clock (state0\<lparr>log := [(INFO, [])]\<rparr>) 0
   \<and> clock state0 1 = clock (state0\<lparr>log := [(INFO, [])]\<rparr>) 1
   \<and> clock state0 2 = clock (state0\<lparr>log := [(INFO, [])]\<rparr>) 2
   \<and> state0 \<noteq> state0\<lparr>log := [(INFO, [])]\<rparr>
   \<and> fst (SupabaseService_create_event None event_data0 state0)
       = fst (SupabaseService_create_event None event_data0 (state0\<lparr>log := [(INFO, [])]\<rparr>))
   \<and> fst (create_payment_record None event_data0 state0)
       = fst (create_payment_record None event_data0 (state0\<lparr>log := [(INFO, [])]\<rparr>))"
proof -
  have absent: "unset (Map.empty ''VITE_SUPABASE_URL'') \<or> unset (Map.empty ''SUPABASE_SERVICE_ROLE_KEY'')"
    by simp
  have same: "clock state0 0 = clock (state0\<lparr>log := [(INFO, [])]\<rparr>) 0
      \<and> clock state0 1 = clock (state0\<lparr>log := [(INFO, [])]\<rparr>) 1
      \<and> clock state0 2 = clock (state0\<lparr>log := [(INFO, [])]\<rparr>) 2"
    by simp
  have differ: "state0 \<noteq> state0\<lparr>log := [(INFO, [])]\<rparr>"
    by (simp add: state0_def)
  note all = mock_mode_results
      [where environ = Map.empty and create_client = "\<lambda>url key. client0" and s = state0
         and s' = "state0\<lparr>log := [(INFO, [])]\<rparr>" and d = event_data0]
  from all absent have "fst (SupabaseService_init Map.empty (\<lambda>url key. client0) state0) = None"
    by blast
  moreover from all same have "fst (SupabaseService_create_event None event_data0 state0)
       = fst (SupabaseService_create_event None event_data0 (state0\<lparr>log := [(INFO, [])]\<rparr>))"
    by blast
  moreover from all same have "fst (create_payment_record None event_data0 state0)
       = fst (create_payment_record None event_data0 (state0\<lparr>log := [(INFO, [])]\<rparr>))"
    by blast
  ultimately show ?thesis using absent same differ by simp
qed

section \<open>Analytics aggregation\<close>

lemma fst_get_registration_stats:
  "fst (get_registration_stats c event_id start_date end_date s) =
     (case get_registration_stats_try c event_id start_date end_date of
        Inr v \<Rightarrow> v
      | Inl e \<Rightarrow> JDict [(''total'', JInt 0), (''data'', JList [])])"
  by (simp add: get_registration_stats_def split: sum.splits)

lemma fst_get_revenue_stats:
  "fst (get_revenue_stats fo c event_id start_date end_date s) =
     (case get_revenue_stats_try fo c event_id start_date end_date of
        Inr v \<Rightarrow> v
      | Inl e \<Rightarrow> JDict [(''total'', JInt 0), (''transaction_count'', JInt 0),
                        (''data'', JList [])])"
  by (simp add: get_revenue_stats_def split: sum.splits)

lemma fst_get_attendance_stats:
  "fst (get_attendance_stats c event_id start_date end_date s) =
     (case get_attendance_stats_try c event_id start_date end_date of
        Inr v \<Rightarrow> v
      | Inl e \<Rightarrow> JDict [(''total_checked_in'', JInt 0), (''data'', JList [])])"
  by (simp add: get_attendance_stats_def split: sum.splits)

lemma get_event_analytics_live:
  "fst (get_event_analytics fo (Some c) event_id start_date end_date s) =
     Inr (JDict
       [(''registrations'', fst (get_registration_stats c event_id start_date end_date sa)),
        (''revenue'', fst (get_revenue_stats fo c event_id start_date end_date sb)),
        (''attendance'', fst (get_attendance_stats c event_id start_date end_date sc))])"
  by (simp add: get_event_analytics_def split_beta fst_get_registration_stats
      fst_get_revenue_stats fst_get_attendance_stats)

lemma failed_subquery_fails_try:
  "(c (registration_query event_id start_date end_date) = Inl e \<longrightarrow>
      get_registration_stats_try c event_id start_date end_date = Inl e)
   \<and> (c (revenue_query event_id start_date end_date) = Inl e \<longrightarrow>
      get_revenue_stats_try fo c event_id start_date end_date = Inl e)
   \<and> (c (attendance_query event_id start_date end_date) = Inl e \<longrightarrow>
      get_attendance_stats_try c event_id start_date end_date = Inl e)"
  by (simp add: get_registration_stats_try_def get_revenue_stats_try_def
      get_attendance_stats_try_def)

lemma failed_try_gives_default:
  "(get_registration_stats_try c event_id start_date end_date = Inl e \<longrightarrow>
      get_registration_stats c event_id start_date end_date sa =
        (JDict [(''total'', JInt 0), (''data'', JList [])],
         logger_error [Lit ''Error getting registration stats: '', Val (JStr (str_exn e))] sa))
   \<and> (get_revenue_stats_try fo c event_id start_date end_date = Inl e \<longrightarrow>
      get_revenue_stats fo c event_id start_date end_date sb =
        (JDict [(''total'', JInt 0), (''transaction_count'', JInt 0), (''data'', JList [])],
         logger_error [Lit ''Error getting revenue stats: '', Val (JStr (str_exn e))] sb))
   \<and> (get_attendance_stats_try c event_id start_date end_date = Inl e \<longrightarrow>
      get_attendance_stats c event_id start_date end_date sc =
        (JDict [(''total_checked_in'', JInt 0), (''data'', JList [])],
         logger_error [Lit ''Error getting attendance stats: '', Val (JStr (str_exn e))] sc))"
  by (simp add: get_registration_stats_def get_revenue_stats_def get_attendance_stats_def)

lemma stats_depend_on_own_query:
  "(c' (registration_query event_id start_date end_date)
      = c (registration_query event_id start_date end_date) \<longrightarrow>
    get_registration_stats c' event_id start_date end_date sa
      = get_registration_stats c event_id start_date end_date sa)
   \<and> (c' (revenue_query event_id start_date end_date)
      = c (revenue_query event_id start_date end_date) \<longrightarrow>
    get_revenue_stats fo c' event_id start_date end_date sb
      = get_revenue_stats fo c event_id start_date end_date sb)
   \<and> (c' (attendance_query event_id start_date end_date)
      = c (attendance_query event_id start_date end_date) \<longrightarrow>
    get_attendance_stats c' event_id start_date end_date sc
      = get_attendance_stats c event_id start_date end_date sc)"
  by (simp add: get_registration_stats_def get_registration_stats_try_def
      get_revenue_stats_def get_revenue_stats_try_def
      get_attendance_stats_def get_attendance_stats_try_def)


lemma q_table_filter_opt: "q_table (filter_opt v f q) = q_table q"
  by (cases v) simp_all

lemma queries_distinct:
  "registration_query event_id start_date end_date \<noteq> revenue_query event_id start_date end_date
   \<and> registration_query event_id start_date end_date
       \<noteq> attendance_query event_id start_date end_date
   \<and> revenue_query event_id start_date end_date
       \<noteq> attendance_query event_id start_date end_date"
proof -
  have r: "q_table (registration_query event_id start_date end_date) = ''registrations''"
    and v: "q_table (revenue_query event_id start_date end_date) = ''payments''"
    and a: "q_table (attendance_query event_id start_date end_date) = ''event_check_ins''"
    by (simp_all add: registration_query_def revenue_query_def attendance_query_def
        q_table_filter_opt Let_def)
  have "q_table (registration_query event_id start_date end_date)
          \<noteq> q_table (revenue_query event_id start_date end_date)"
    and "q_table (registration_query event_id start_date end_date)
          \<noteq> q_table (attendance_query event_id start_date end_date)"
    and "q_table (revenue_query event_id start_date end_date)
          \<noteq> q_table (attendance_query event_id start_date end_date)"
    by (simp_all add: r v a)
  then show ?thesis by fastforce
qed

text \<open>
  C4. With a client, the analytics aggregation never fails: it returns the three
  statistics, each computed from the outcome of its own sub-query. A sub-query that raises
  makes the \<^verbatim>\<open>try\<close> part of its statistics function raise, and any exception there
  (from the query or from shaping its response) is replaced by that metric's zero-valued
  default and logged. Each metric's result is the same for two clients that answer that
  metric's own query alike, whatever they answer to the other queries; the three queries
  are pairwise different, so every combination of outcomes is some client's.
\<close>

theorem analytics_failures_are_local:
  "fst (get_event_analytics fo (Some c) event_id start_date end_date s) =
     Inr (JDict
       [(''registrations'', fst (get_registration_stats c event_id start_date end_date sa)),
        (''revenue'', fst (get_revenue_stats fo c event_id start_date end_date sb)),
        (''attendance'', fst (get_attendance_stats c event_id start_date end_date sc))])
 \<and> ((c (registration_query event_id start_date end_date) = Inl e \<longrightarrow>
      get_registration_stats_try c event_id start_date end_date = Inl e)
   \<and> (c (revenue_query event_id start_date end_date) = Inl e \<longrightarrow>
      get_revenue_stats_try fo c event_id start_date end_date = Inl e)
   \<and> (c (attendance_query event_id start_date end_date) = Inl e \<longrightarrow>
      get_attendance_stats_try c event_id start_date end_date = Inl e))
 \<and> ((get_registration_stats_try c event_id start_date end_date = Inl e \<longrightarrow>
      get_registration_stats c event_id start_date end_date sa =
        (JDict [(''total'', JInt 0), (''data'', JList [])],
         logger_error [Lit ''Error getting registration stats: '', Val (JStr (str_exn e))] sa))
   \<and> (get_revenue_stats_try fo c event_id start_date end_date = Inl e \<longrightarrow>
      get_revenue_stats fo c event_id start_date end_date sb =
        (JDict [(''total'', JInt 0), (''transaction_count'', JInt 0), (''data'', JList [])],
         logger_error [Lit ''Error getting revenue stats: '', Val (JStr (str_exn e))] sb))
   \<and> (get_attendance_stats_try c event_id start_date end_date = Inl e \<longrightarrow>
      get_attendance_stats c event_id start_date end_date sc =
        (JDict [(''total_checked_in'', JInt 0), (''data'', JList [])],
         logger_error [Lit ''Error getting attendance stats: '', Val (JStr (str_exn e))] sc)))
 \<and> ((c' (registration_query event_id start_date end_date)
      = c (registration_query event_id start_date end_date) \<longrightarrow>
    get_registration_stats c' event_id start_date end_date sa
      = get_registration_stats c event_id start_date end_date sa)
   \<and> (c' (revenue_query event_id start_date end_date)
      = c (revenue_query event_id start_date end_date) \<longrightarrow>
    get_revenue_stats fo c' event_id start_date end_date sb
      = get_revenue_stats fo c event_id start_date end_date sb)
   \<and> (c' (attendance_query event_id start_date end_date)
      = c (attendance_query event_id start_date end_date) \<longrightarrow>
    get_attendance_stats c' event_id start_date end_date sc
      = get_attendance_stats c event_id start_date end_date sc))
 \<and> (registration_query event_id start_date end_date
       \<noteq> revenue_query event_id start_date end_date
   \<and> registration_query event_id start_date end_date
       \<noteq> attendance_query event_id start_date end_date
   \<and> revenue_query event_id start_date end_date
       \<noteq> attendance_query event_id start_date end_date)"
  by (rule conjI [OF get_event_analytics_live conjI [OF failed_subquery_fails_try
        conjI [OF failed_try_gives_default conjI [OF stats_depend_on_own_query
        queries_distinct]]]])

theorem analytics_failures_are_local_witness:
  "client0 (revenue_query None None None) = Inl (Exn ''ConnectError'' ''connection refused'')
   \<and> client1 (revenue_query None None None) = client0 (revenue_query None None None)
   \<and> client1 (registration_query None None None) \<noteq> client0 (registration_query None None None)
   \<and> fst (get_event_analytics float_ops0 (Some client0) None None None state0) =
       Inr (JDict
         [(''registrations'', JDict
            [(''total'', JInt 2),
             (''data'', JList [JDict [(''id'', JInt 1)], JDict [(''id'', JInt 2)]])]),
          (''revenue'', JDict
            [(''total'', JInt 0), (''transaction_count'', JInt 0), (''data'', JList [])]),
          (''attendance'', JDict
            [(''total_checked_in'', JInt 2),
             (''data'', JList [JDict [(''id'', JInt 1)], JDict [(''id'', JInt 2)]])])])
   \<and> get_revenue_stats float_ops0 client1 None None None state0
       = get_revenue_stats float_ops0 client0 None None None state0"
proof -
  have failed: "client0 (revenue_query None None None)
                  = Inl (Exn ''ConnectError'' ''connection refused'')"
    by (simp add: client0_def revenue_query_def)
  have same: "client1 (revenue_query None None None) = client0 (revenue_query None None None)"
    and differ: "client1 (registration_query None None None)
                  \<noteq> client0 (registration_query None None None)"
    by (simp_all add: client0_def client1_def revenue_query_def registration_query_def)
  note all = analytics_failures_are_local
      [where c = client0 and c' = client1 and fo = float_ops0 and event_id = None
         and start_date = None and end_date = None and s = state0 and sa = state0
         and sb = state0 and sc = state0 and e = "Exn ''ConnectError'' ''connection refused''"]
  from all failed
  have "fst (get_revenue_stats float_ops0 client0 None None None state0) =
          JDict [(''total'', JInt 0), (''transaction_count'', JInt 0), (''data'', JList [])]"
    by simp
  moreover
  have "fst (get_registration_stats client0 None None None state0) =
          JDict [(''total'', JInt 2),
                 (''data'', JList [JDict [(''id'', JInt 1)], JDict [(''id'', JInt 2)]])]"
    and "fst (get_attendance_stats client0 None None None state0) =
          JDict [(''total_checked_in'', JInt 2),
                 (''data'', JList [JDict [(''id'', JInt 1)], JDict [(''id'', JInt 2)]])]"
    by (simp_all add: get_registration_stats_def get_registration_stats_try_def
        registration_query_def get_attendance_stats_def get_attendance_stats_try_def
        attendance_query_def client0_def count_or_len_def)
  moreover from all
  have "fst (get_event_analytics float_ops0 (Some client0) None None None state0) =
     Inr (JDict
       [(''registrations'', fst (get_registration_stats client0 None None None state0)),
        (''revenue'', fst (get_revenue_stats float_ops0 client0 None None None state0)),
        (''attendance'', fst (get_attendance_stats client0 None None None state0))])"
    by blast
  moreover from all same
  have "get_revenue_stats float_ops0 client1 None None None state0
       = get_revenue_stats float_ops0 client0 None None None state0"
    by blast
  ultimately show ?thesis
    using failed same differ by simp
qed

section \<open>Authentication\<close>


lemma app_rejects:
  "authenticated_route req \<Longrightarrow> Depends_verify_token security environ authorization = Inl h
     \<Longrightarrow> app security environ authorization req s = (Inl h, s)"
  by (simp add: app_def)

lemma app_accepts:
  "Depends_verify_token security environ authorization = Inr ok
     \<Longrightarrow> app security environ authorization req s = handler req s"
  by (simp add: app_def)

lemma app_open: "\<not> authenticated_route req \<Longrightarrow> app security environ authorization req s = handler req s"
  by (simp add: app_def)








section \<open>Envelopes and errors\<close>




end
